theory Spec2Isabelle
  imports Complex_Main
begin

section \<open>Conventions of the embedding\<close>

text \<open>
  The two modules \<^verbatim>\<open>amy_point_mass.py\<close> and \<^verbatim>\<open>peg_2d.py\<close> are embedded function by
  function. Python floats and numpy float arrays are read as \<^typ>\<open>real\<close> and
  \<^typ>\<open>real list\<close>: the properties below are about which branch a comparison selects and
  which values are stored, not about rounding. Python integers are \<^typ>\<open>int\<close>.
  Every exception the embedded code can raise is a value of \<open>py_error\<close>; an operation
  that can raise returns \<open>py_error + 'a\<close>, the error on the left.
\<close>

datatype py_error = IndexError | AssertionError | ValueError | TypeError | AttributeError

subsection \<open>Python list indexing\<close>

text \<open>
  \<^verbatim>\<open>xs[i]\<close> on a Python list: an index below zero counts from the end, and an index
  that is still out of range after that adjustment raises \<^verbatim>\<open>IndexError\<close>.
\<close>

definition py_getitem :: "'a list \<Rightarrow> int \<Rightarrow> py_error + 'a" where
  "py_getitem xs i =
     (let n = int (length xs) in
      if 0 \<le> i \<and> i < n then Inr (xs ! nat i)
      else if - n \<le> i \<and> i < 0 then Inr (xs ! nat (n + i))
      else Inl IndexError)"

subsection \<open>numpy vectors\<close>

text \<open>
  \<^verbatim>\<open>np.linalg.norm(v)\<close> without further arguments flattens its argument and returns the
  square root of the sum of the squares.
\<close>

definition linalg_norm :: "real list \<Rightarrow> real" where
  "linalg_norm v = sqrt (sum_list (map (\<lambda>x. x * x) v))"

text \<open>
  \<^verbatim>\<open>u - v\<close> on one-dimensional arrays: elementwise when the lengths agree, a
  one-element operand is broadcast, any other pair of lengths raises \<^verbatim>\<open>ValueError\<close>.
\<close>

definition np_sub :: "real list \<Rightarrow> real list \<Rightarrow> py_error + real list" where
  "np_sub u v =
     (if length u = length v then Inr (map (\<lambda>(x, y). x - y) (zip u v))
      else if length v = 1 then Inr (map (\<lambda>x. x - hd v) u)
      else if length u = 1 then Inr (map (\<lambda>y. hd u - y) v)
      else Inl ValueError)"

text \<open>
  \<^verbatim>\<open>v[:n] = c\<close> and \<^verbatim>\<open>v[-n:] = c\<close> (for \<open>n > 0\<close>) overwrite the first, respectively the
  last, \<open>n\<close> entries that exist and leave the length alone; \<^verbatim>\<open>v[n:] = c\<close> overwrites
  everything from position \<open>n\<close> on.
\<close>

definition fill_prefix :: "nat \<Rightarrow> real \<Rightarrow> real list \<Rightarrow> real list" where
  "fill_prefix n c v = map (\<lambda>_. c) (take n v) @ drop n v"

definition fill_from :: "nat \<Rightarrow> real \<Rightarrow> real list \<Rightarrow> real list" where
  "fill_from n c v = take n v @ map (\<lambda>_. c) (drop n v)"

definition fill_suffix :: "nat \<Rightarrow> real \<Rightarrow> real list \<Rightarrow> real list" where
  "fill_suffix n c v = fill_from (length v - n) c v"

section \<open>Discrete action tables\<close>

text \<open>
  \<^verbatim>\<open>PointMassEnv.__init__\<close>, discrete branch:
  \<^verbatim>\<open>actions = [-.5, 0, .5]\<close> and
  \<^verbatim>\<open>[(a, b) for a in actions for b in actions if not (a==0 and b==0)]\<close>.
\<close>

definition PointMassEnv_actions :: "real list" where
  "PointMassEnv_actions = [- 0.5, 0, 0.5]"

definition PointMassEnv_a_dict :: "(real \<times> real) list" where
  "PointMassEnv_a_dict =
     concat (map (\<lambda>a. concat (map (\<lambda>b. if \<not> (a = 0 \<and> b = 0) then [(a, b)] else [])
                                   PointMassEnv_actions))
                 PointMassEnv_actions)"

text \<open>
  \<^verbatim>\<open>Peg2DEnv.__init__\<close>, discrete branch: \<^verbatim>\<open>actions = [-act_scale, 0, act_scale]\<close>; with
  \<^verbatim>\<open>id_less\<close> the comprehension carries the filter
  \<^verbatim>\<open>if not (a == 0 and b == 0 and c == 0)\<close>, without it there is no filter.
\<close>

definition Peg2DEnv_actions :: "real \<Rightarrow> real list" where
  "Peg2DEnv_actions act_scale = [- act_scale, 0, act_scale]"

definition Peg2DEnv_a_dict :: "real \<Rightarrow> bool \<Rightarrow> (real \<times> real \<times> real) list" where
  "Peg2DEnv_a_dict act_scale id_less =
     (let actions = Peg2DEnv_actions act_scale in
      if id_less then
        concat (map (\<lambda>a. concat (map (\<lambda>b. concat (map (\<lambda>c.
                  if \<not> (a = 0 \<and> b = 0 \<and> c = 0) then [(a, b, c)] else [])
                actions)) actions)) actions)
      else
        concat (map (\<lambda>a. concat (map (\<lambda>b. concat (map (\<lambda>c. [(a, b, c)])
                actions)) actions)) actions))"

section \<open>Actions handed to \<^verbatim>\<open>step\<close>\<close>

text \<open>
  \<^verbatim>\<open>step(a)\<close> receives either a Python integer (the discrete configurations) or a float
  array (the continuous ones). \<^verbatim>\<open>int(a)\<close> is the identity on an integer, truncates the
  single entry of a one-element array towards zero, and raises \<^verbatim>\<open>TypeError\<close> on any other
  array. Where an integer is used as a control it is the scalar array holding it.
\<close>

datatype action = Idx int | Vec "real list"

definition py_int :: "action \<Rightarrow> py_error + int" where
  "py_int a =
     (case a of
        Idx i \<Rightarrow> Inr i
      | Vec v \<Rightarrow> (case v of
                   [x] \<Rightarrow> Inr (if 0 \<le> x then \<lfloor>x\<rfloor> else \<lceil>x\<rceil>)
                 | _ \<Rightarrow> Inl TypeError))"

definition as_array :: "action \<Rightarrow> real list" where
  "as_array a = (case a of Idx i \<Rightarrow> [of_int i] | Vec v \<Rightarrow> v)"

section \<open>The simulator\<close>

text \<open>
  The module \<^verbatim>\<open>ge_world.mujoco_env\<close> and the physics engine behind it are collaborators
  of the two environment classes. The joint positions and velocities, which the classes
  read and overwrite, are fields of the simulator state; everything else the engine
  keeps is the field \<open>internals\<close>. The engine's operations are the fields of a
  \<open>simulator\<close>, about which nothing is assumed: \<open>set_state\<close> for
  \<^verbatim>\<open>self.set_state(qpos, qvel)\<close>, \<open>do_simulation\<close> for
  \<^verbatim>\<open>self.do_simulation(ctrl, n_frames)\<close>, \<open>get_body_com\<close> for
  \<^verbatim>\<open>self.get_body_com(name)\<close> (a position in space, three coordinates) and
  \<open>render_grey\<close> for the expression
  \<^verbatim>\<open>self.render('grey', width=w, height=h).transpose(0, 1)[None, ...] / 255\<close>.
\<close>

record 'x sim_data =
  qpos :: "real list"
  qvel :: "real list"
  internals :: 'x

record ('x, 'i) simulator =
  set_state :: "real list \<Rightarrow> real list \<Rightarrow> 'x sim_data \<Rightarrow> 'x sim_data"
  do_simulation :: "real list \<Rightarrow> nat \<Rightarrow> 'x sim_data \<Rightarrow> 'x sim_data"
  get_body_com :: "string \<Rightarrow> 'x sim_data \<Rightarrow> real \<times> real \<times> real"
  render_grey :: "nat \<Rightarrow> nat \<Rightarrow> 'x sim_data \<Rightarrow> 'i"

section \<open>The point-mass environment\<close>

subsection \<open>\<^verbatim>\<open>Controls\<close>\<close>

text \<open>
  The fields of a \<^verbatim>\<open>Controls\<close> object: the number of tasks \<open>k\<close>, the goal array
  (flattened) and the task index.
\<close>

record Controls =
  k :: int
  goals :: "real list"
  index :: int

text \<open>
  \<^verbatim>\<open>Controls.sample_task(index=None)\<close>. Without an index the method stores the value of
  \<^verbatim>\<open>np.random.randint(0, self.k)\<close>, which is the argument \<open>drawn\<close> here; the call raises
  \<^verbatim>\<open>ValueError\<close>, before anything is stored, when \<open>k\<close> is not positive. With an index
  it first stores the index and then asserts \<^verbatim>\<open>index < self.k\<close>, so the object returned
  on the left of the pair carries the new index also when the assertion fails.
\<close>

definition Controls_sample_task :: "int \<Rightarrow> int option \<Rightarrow> Controls \<Rightarrow> Controls \<times> (py_error + int)" where
  "Controls_sample_task drawn idx c =
     (case idx of
        None \<Rightarrow>
          (if 0 < k c then (let c' = c\<lparr>index := drawn\<rparr> in (c', Inr (index c')))
           else (c, Inl ValueError))
      | Some i \<Rightarrow>
          (let c' = c\<lparr>index := i\<rparr> in
           if i < k c' then (c', Inr (index c')) else (c', Inl AssertionError)))"

subsection \<open>\<^verbatim>\<open>PointMassEnv\<close>\<close>

record 'x PointMassEnv =
  controls :: Controls
  discrete :: bool
  a_dict :: "(real \<times> real) list"
  frame_skip :: nat
  sim :: "'x sim_data"

record step_info =
  info_dist :: real
  info_success :: real

text \<open>\<^verbatim>\<open>PointMassEnv.sample_task\<close> and \<^verbatim>\<open>PointMassEnv.get_goal_index\<close>.\<close>

definition PointMassEnv_sample_task ::
  "int \<Rightarrow> int option \<Rightarrow> 'x PointMassEnv \<Rightarrow> 'x PointMassEnv \<times> (py_error + int)" where
  "PointMassEnv_sample_task drawn idx env =
     (let (c', r) = Controls_sample_task drawn idx (controls env)
      in (env\<lparr>controls := c'\<rparr>, r))"

definition PointMassEnv_get_goal_index :: "'x PointMassEnv \<Rightarrow> int" where
  "PointMassEnv_get_goal_index env = index (controls env)"

text \<open>\<^verbatim>\<open>PointMassEnv.get_reward(state, goal)\<close>.\<close>

definition PointMassEnv_get_reward :: "real list \<Rightarrow> real list \<Rightarrow> py_error + real" where
  "PointMassEnv_get_reward state goal =
     (case np_sub state goal of
        Inl e \<Rightarrow> Inl e
      | Inr v \<Rightarrow> Inr (if linalg_norm v < 0.02 then 0 else - 1))"

text \<open>
  \<^verbatim>\<open>PointMassEnv._get_delta\<close>: the difference of the two body positions without its
  last coordinate. \<^verbatim>\<open>PointMassEnv._get_obs\<close>: the first two joint positions.
\<close>

definition PointMassEnv_get_delta :: "('x, 'i) simulator \<Rightarrow> 'x sim_data \<Rightarrow> real list" where
  "PointMassEnv_get_delta S d =
     (let (gx, gy, gz) = get_body_com S ''goal'' d;
          (ox, oy, oz) = get_body_com S ''object'' d
      in butlast [gx - ox, gy - oy, gz - oz])"

definition PointMassEnv_get_obs :: "'x sim_data \<Rightarrow> real list" where
  "PointMassEnv_get_obs d = take 2 (qpos d)"

text \<open>
  The control of \<^verbatim>\<open>PointMassEnv.step(a)\<close>: the argument itself in the continuous
  configuration, the table entry \<^verbatim>\<open>self.a_dict[int(a)]\<close> in the discrete one.
\<close>

definition PointMassEnv_control :: "'x PointMassEnv \<Rightarrow> action \<Rightarrow> py_error + real list" where
  "PointMassEnv_control env a =
     (if discrete env then
        (case py_int a of
           Inl e \<Rightarrow> Inl e
         | Inr i \<Rightarrow> (case py_getitem (a_dict env) i of
                      Inl e \<Rightarrow> Inl e
                    | Inr (x, y) \<Rightarrow> Inr [x, y]))
      else Inr (as_array a))"

text \<open>
  The simulator state of \<^verbatim>\<open>PointMassEnv.step\<close> before the simulation advances: the first
  two velocities are zeroed and the state is set.
\<close>

definition PointMassEnv_pre_state :: "('x, 'i) simulator \<Rightarrow> 'x PointMassEnv \<Rightarrow> 'x sim_data" where
  "PointMassEnv_pre_state S env =
     (let d0 = sim env;
          d1 = d0\<lparr>qvel := fill_prefix 2 0 (qvel d0)\<rparr>
      in set_state S (qpos d1) (qvel d1) d1)"

text \<open>
  \<^verbatim>\<open>PointMassEnv.step(a)\<close>. The result is the environment after the step together with
  the tuple \<^verbatim>\<open>(ob, reward, done, info)\<close>, or the exception raised. The value
  \<^verbatim>\<open>ctrl = np.square(a).sum()\<close> is computed by the source and never used.
\<close>

definition PointMassEnv_step ::
  "('x, 'i) simulator \<Rightarrow> 'x PointMassEnv \<Rightarrow> action
     \<Rightarrow> py_error + ('x PointMassEnv \<times> real list \<times> real \<times> bool \<times> step_info)" where
  "PointMassEnv_step S env a =
     (let d2 = PointMassEnv_pre_state S env
      in case PointMassEnv_control env a of
           Inl e \<Rightarrow> Inl e
         | Inr a' \<Rightarrow>
             (let vec = PointMassEnv_get_delta S d2;
                  dst = linalg_norm vec;
                  d3 = do_simulation S a' (frame_skip env) d2;
                  ob = PointMassEnv_get_obs d3
              in case PointMassEnv_get_reward ob (goals (controls env)) of
                   Inl e \<Rightarrow> Inl e
                 | Inr reward \<Rightarrow>
                     Inr (env\<lparr>sim := d3\<rparr>, ob, reward, reward = 0,
                          \<lparr>info_dist = dst, info_success = (if dst < 0.02 then 1 else 0)\<rparr>)))"

section \<open>Random numbers\<close>

text \<open>
  \<^verbatim>\<open>self.np_random\<close> is a numpy \<^verbatim>\<open>RandomState\<close>. Its state is the sequence of the
  values that \<^verbatim>\<open>random_sample()\<close> is still going to return, each in the half-open unit
  interval; \<^verbatim>\<open>uniform(low, high, size)\<close> consumes one of them per entry, in row-major
  order, and returns \<^verbatim>\<open>low + (high - low) * u\<close> for each; \<^verbatim>\<open>rand()\<close> consumes one and
  returns it. The probability law of the sequence is not part of the embedding.
\<close>

type_synonym rng = "nat \<Rightarrow> real"

definition unit_draws :: "rng \<Rightarrow> bool" where
  "unit_draws s \<longleftrightarrow> (\<forall>i. 0 \<le> s i \<and> s i < 1)"

definition rng_skip :: "nat \<Rightarrow> rng \<Rightarrow> rng" where
  "rng_skip n s = (\<lambda>i. s (i + n))"

definition rng_uniform :: "real \<Rightarrow> real \<Rightarrow> nat \<Rightarrow> rng \<Rightarrow> real list \<times> rng" where
  "rng_uniform low high n s = (map (\<lambda>i. low + (high - low) * s i) [0..<n], rng_skip n s)"

definition rng_rand :: "rng \<Rightarrow> real \<times> rng" where
  "rng_rand s = (s 0, rng_skip 1 s)"

section \<open>The peg-insertion environment\<close>

subsection \<open>Rejection sampling of goals and initial states\<close>

text \<open>
  \<^verbatim>\<open>good_goal(goal)\<close> and \<^verbatim>\<open>good_state(state)\<close> read entry 0 of their argument, which
  raises \<^verbatim>\<open>IndexError\<close> on an empty array.
\<close>

definition good_goal :: "real list \<Rightarrow> py_error + bool" where
  "good_goal goal =
     (case goal of [] \<Rightarrow> Inl IndexError | g0 # _ \<Rightarrow> Inr (g0 < 0.26 \<and> - 0.26 < g0))"

definition good_state :: "real list \<Rightarrow> py_error + bool" where
  "good_state state =
     (case state of [] \<Rightarrow> Inl IndexError | s0 # _ \<Rightarrow> Inr (s0 < pi / 2 \<and> - pi / 2 < s0))"

text \<open>
  The inner loop of both samplers, \<^verbatim>\<open>for c in batch: if good(c): return c\<close>: the first
  accepted candidate, or \<open>None\<close> when the loop falls through.
\<close>

fun first_accepted :: "('a \<Rightarrow> py_error + bool) \<Rightarrow> 'a list \<Rightarrow> py_error + 'a option" where
  "first_accepted good [] = Inr None"
| "first_accepted good (c # cs) =
     (case good c of
        Inl e \<Rightarrow> Inl e
      | Inr b \<Rightarrow> if b then Inr (Some c) else first_accepted good cs)"

text \<open>
  One batch of \<^verbatim>\<open>Peg2DEnv._get_goal\<close>: an array of shape \<open>(4, 1)\<close>, whose rows are
  one-element arrays.
\<close>

definition goal_batch :: "real \<Rightarrow> real \<Rightarrow> rng \<Rightarrow> real list list \<times> rng" where
  "goal_batch low high s =
     (let (vals, s') = rng_uniform low high 4 s in (map (\<lambda>v. [v]) vals, s'))"

text \<open>
  \<^verbatim>\<open>Peg2DEnv._get_goal\<close>, the \<^verbatim>\<open>while True\<close> loop. The value \<open>None\<close> stands for a loop that
  never returns.
\<close>

partial_function (option) Peg2DEnv_get_goal ::
  "real \<Rightarrow> real \<Rightarrow> rng \<Rightarrow> (py_error + real list \<times> rng) option" where
  "Peg2DEnv_get_goal low high s =
     (case goal_batch low high s of
        (batch, s') \<Rightarrow>
          (case first_accepted good_goal batch of
             Inl e \<Rightarrow> Some (Inl e)
           | Inr (Some g) \<Rightarrow> Some (Inr (g, s'))
           | Inr None \<Rightarrow> Peg2DEnv_get_goal low high s'))"

text \<open>
  One batch of \<^verbatim>\<open>Peg2DEnv._get_state\<close>: twelve draws fill the \<open>(4, 3)\<close> array, four more
  the array \<^verbatim>\<open>_\<close>, then columns 1 and 2 are overwritten, the second overwrite drawing
  four further values.
\<close>

definition state_batch :: "rng \<Rightarrow> real list list \<times> rng" where
  "state_batch s =
     (let (raw, s1) = rng_uniform (- 1.5) 1.5 12 s;
          (spread, s2) = rng_uniform 0 (pi / 2) 4 s1;
          (extra, s3) = rng_uniform 0 (pi / 4) 4 s2
      in (map (\<lambda>i. let x = raw ! (3 * i)
                    in [x, - x - sgn x * (spread ! i), sgn x * (spread ! i) + extra ! i])
              [0..<4],
          s3))"

partial_function (option) Peg2DEnv_get_state ::
  "rng \<Rightarrow> (py_error + real list \<times> rng) option" where
  "Peg2DEnv_get_state s =
     (case state_batch s of
        (batch, s') \<Rightarrow>
          (case first_accepted good_state batch of
             Inl e \<Rightarrow> Some (Inl e)
           | Inr (Some st) \<Rightarrow> Some (Inr (st, s'))
           | Inr None \<Rightarrow> Peg2DEnv_get_state s'))"

subsection \<open>\<^verbatim>\<open>Peg2DEnv\<close>\<close>

text \<open>
  The attributes of a \<^verbatim>\<open>Peg2DEnv\<close> object. \<^verbatim>\<open>goal\<close> and \<^verbatim>\<open>goal_img\<close> are first assigned by
  \<^verbatim>\<open>reset_model\<close>; reading them earlier raises \<^verbatim>\<open>AttributeError\<close>. \<^verbatim>\<open>reach_counts\<close> is
  the class attribute initialised to 0.
\<close>

record ('x, 'i) Peg2DEnv =
  peg_discrete :: bool
  done_on_goal :: bool
  peg_a_dict :: "(real \<times> real \<times> real) list"
  obs_keys :: "string list"
  free :: bool
  peg_frame_skip :: nat
  goal_low :: real
  goal_high :: real
  width :: nat
  height :: nat
  goal :: "real list option"
  goal_img :: "'i option"
  reach_counts :: int
  np_random :: rng
  peg_sim :: "'x sim_data"

text \<open>The observation dictionary: a key that was not inserted is \<open>None\<close>.\<close>

record 'i peg_obs =
  ob_x :: "real list option"
  ob_img :: "'i option"
  ob_goal :: "real list option"
  ob_goal_img :: "'i option"
  ob_a :: "real list option"

text \<open>
  \<^verbatim>\<open>Peg2DEnv._get_obs\<close>. With the key \<^verbatim>\<open>img\<close> the slot is moved out of the frame, the
  scene rendered and the slot put back, each time through \<^verbatim>\<open>set_state\<close>.
\<close>

definition Peg2DEnv_get_obs ::
  "('x, 'i) simulator \<Rightarrow> ('x, 'i) Peg2DEnv \<Rightarrow> py_error + ('x, 'i) Peg2DEnv \<times> 'i peg_obs" where
  "Peg2DEnv_get_obs S env =
     (let d0 = peg_sim env;
          q = qpos d0;
          o1 = \<lparr>ob_x = (if ''x'' \<in> set (obs_keys env) then Some (take 3 q) else None),
                ob_img = None, ob_goal = None, ob_goal_img = None, ob_a = None\<rparr>;
          (d2, o2) =
            (if ''img'' \<in> set (obs_keys env) then
               (let d1 = set_state S (fill_from 3 1 q) (qvel d0) d0;
                    im = render_grey S (width env) (height env) d1
                in (set_state S q (qvel d1) d1, o1\<lparr>ob_img := Some im\<rparr>))
             else (d0, o1));
          o3 = (if ''goal'' \<in> set (obs_keys env) then o2\<lparr>ob_goal := Some (drop 3 q)\<rparr> else o2)
      in if ''goal_img'' \<in> set (obs_keys env) then
           (case goal_img env of
              None \<Rightarrow> Inl AttributeError
            | Some gi \<Rightarrow> Inr (env\<lparr>peg_sim := d2\<rparr>, o3\<lparr>ob_goal_img := Some gi\<rparr>))
         else Inr (env\<lparr>peg_sim := d2\<rparr>, o3))"

text \<open>
  The bookkeeping at the end of \<^verbatim>\<open>Peg2DEnv.step\<close>: the update of \<^verbatim>\<open>reach_counts\<close> from the
  reward, then the decision on \<^verbatim>\<open>done\<close>. The result is the new counter and \<^verbatim>\<open>done\<close>.
\<close>

definition reach_update :: "bool \<Rightarrow> int \<Rightarrow> real \<Rightarrow> int \<times> bool" where
  "reach_update on_goal rc reward =
     (let rc1 = (if rc \<noteq> 0 then (if reward = 0 then rc + 1 else 0)
                 else if reward = 0 then 1 else rc)
      in if on_goal \<and> rc1 > 1 then (0, True) else (rc1, False))"

text \<open>
  The control vector of \<^verbatim>\<open>Peg2DEnv.step(a)\<close>: the argument itself in the continuous
  configuration, and \<^verbatim>\<open>np.array([*self.a_dict[int(a)], self.goal])\<close>, the table entry
  followed by the current goal, in the discrete one.
\<close>

definition Peg2DEnv_control :: "('x, 'i) Peg2DEnv \<Rightarrow> action \<Rightarrow> py_error + real list" where
  "Peg2DEnv_control env a =
     (if peg_discrete env then
        (case py_int a of
           Inl e \<Rightarrow> Inl e
         | Inr i \<Rightarrow> (case py_getitem (peg_a_dict env) i of
                      Inl e \<Rightarrow> Inl e
                    | Inr (x, y, z) \<Rightarrow> (case goal env of
                                          None \<Rightarrow> Inl AttributeError
                                        | Some g \<Rightarrow> Inr ([x, y, z] @ g))))
      else Inr (as_array a))"

text \<open>
  The simulator state of \<^verbatim>\<open>Peg2DEnv.step\<close> before the simulation advances: the last
  velocity is zeroed, with \<^verbatim>\<open>free\<close> the last position is set to 1, and the state is set.
\<close>

definition Peg2DEnv_pre_state :: "('x, 'i) simulator \<Rightarrow> ('x, 'i) Peg2DEnv \<Rightarrow> 'x sim_data" where
  "Peg2DEnv_pre_state S env =
     (let d0 = peg_sim env;
          d1 = d0\<lparr>qvel := fill_suffix 1 0 (qvel d0)\<rparr>;
          d2 = (if free env then d1\<lparr>qpos := fill_suffix 1 1 (qpos d1)\<rparr> else d1)
      in set_state S (qpos d2) (qvel d2) d2)"

text \<open>
  \<^verbatim>\<open>Peg2DEnv.step(a)\<close>. The result is the environment after the step together with
  \<^verbatim>\<open>(ob, reward, done)\<close>, or the exception raised; the fourth component of the source's
  result is the constant dictionary \<^verbatim>\<open>dict(success=0)\<close>.
\<close>

definition Peg2DEnv_step ::
  "('x, 'i) simulator \<Rightarrow> ('x, 'i) Peg2DEnv \<Rightarrow> action
     \<Rightarrow> py_error + (('x, 'i) Peg2DEnv \<times> 'i peg_obs \<times> real \<times> bool)" where
  "Peg2DEnv_step S env a =
     (case Peg2DEnv_control env a of
        Inl e \<Rightarrow> Inl e
      | Inr a' \<Rightarrow>
          (case Peg2DEnv_get_obs S
                  (env\<lparr>peg_sim := do_simulation S a' (peg_frame_skip env)
                                     (Peg2DEnv_pre_state S env)\<rparr>) of
             Inl e \<Rightarrow> Inl e
           | Inr (env1, ob) \<Rightarrow>
               (let reward = - linalg_norm a';
                    (rc, dn) = reach_update (done_on_goal env1) (reach_counts env1) reward;
                    ob' = (if ''a'' \<in> set (obs_keys env1) then ob\<lparr>ob_a := Some a'\<rparr> else ob)
                in Inr (env1\<lparr>reach_counts := rc\<rparr>, ob', reward, dn))))"

text \<open>
  \<^verbatim>\<open>dst[:] = src\<close> on one-dimensional arrays: \<open>src\<close> must have the length of \<open>dst\<close> or
  a single entry, which is then broadcast.
\<close>

definition np_assign_all :: "real list \<Rightarrow> real list \<Rightarrow> py_error + real list" where
  "np_assign_all dst src =
     (if length src = length dst then Inr src
      else if length src = 1 then Inr (map (\<lambda>_. hd src) dst)
      else Inl ValueError)"

text \<open>
  \<^verbatim>\<open>Peg2DEnv.reset_model\<close> from the assignment \<^verbatim>\<open>self.goal = goal\<close> on, for the start state
  \<open>x\<close> and the goal \<open>g\<close> that were passed in or sampled. The goal is a one-element array;
  with any other length the assignment \<^verbatim>\<open>qpos[0] = a0 + a1\<close> raises \<^verbatim>\<open>ValueError\<close>.
  \<open>arccos\<close> is only meaningful on \<open>[-1, 1]\<close>; its value goes nowhere but into the pose
  that the goal image is rendered from.
\<close>

definition reset_with :: "('x, 'i) simulator \<Rightarrow> ('x, 'i) Peg2DEnv \<Rightarrow> real list \<Rightarrow> real list
     \<Rightarrow> py_error + ('x, 'i) Peg2DEnv \<times> 'i peg_obs" where
  "reset_with S env x g =
     (let env1 = env\<lparr>goal := Some g\<rparr> in
      case g of
        [g0] \<Rightarrow>
          (let peg_y = g0 / 10;
               base = 0.03 + (- 0.005);
               hypo = linalg_norm [base, peg_y];
               a0 = arctan (peg_y / base);
               (u, s') = rng_rand (np_random env1);
               a1 = sgn (u - 0.5) * arccos (hypo / 0.04);
               q0 = a0 + a1;
               q1 = - 2 * a1;
               pose = [q0, q1, 0 - q0 - q1, 1];
               d0 = peg_sim env1;
               d1 = set_state S pose (qvel d0) d0;
               gi = render_grey S (width env1) (height env1) d1
           in case np_assign_all (qpos d1) (x @ (if free env1 then [1] else g)) of
                Inl e \<Rightarrow> Inl e
              | Inr q \<Rightarrow>
                  Peg2DEnv_get_obs S
                    (env1\<lparr>np_random := s', goal_img := Some gi,
                          peg_sim := d1\<lparr>qpos := q, qvel := map (\<lambda>_. 0) (qvel d1)\<rparr>\<rparr>))
      | _ \<Rightarrow> Inl ValueError)"

text \<open>
  \<^verbatim>\<open>Peg2DEnv.reset_model(x=None, goal=None)\<close>: the counter is cleared, then the start
  state and the goal are sampled unless given. \<open>None\<close> stands for a sampler that never
  returns.
\<close>

definition Peg2DEnv_reset_model ::
  "('x, 'i) simulator \<Rightarrow> ('x, 'i) Peg2DEnv \<Rightarrow> real list option \<Rightarrow> real list option
     \<Rightarrow> (py_error + ('x, 'i) Peg2DEnv \<times> 'i peg_obs) option" where
  "Peg2DEnv_reset_model S env x_arg goal_arg =
     (let env1 = env\<lparr>reach_counts := 0\<rparr> in
      case (case x_arg of
              Some x \<Rightarrow> Some (Inr (x, np_random env1))
            | None \<Rightarrow> Peg2DEnv_get_state (np_random env1)) of
        None \<Rightarrow> None
      | Some (Inl e) \<Rightarrow> Some (Inl e)
      | Some (Inr (x, s1)) \<Rightarrow>
          (case (case goal_arg of
                   Some g \<Rightarrow> Some (Inr (g, s1))
                 | None \<Rightarrow> Peg2DEnv_get_goal (goal_low env1) (goal_high env1) s1) of
             None \<Rightarrow> None
           | Some (Inl e) \<Rightarrow> Some (Inl e)
           | Some (Inr (g, s2)) \<Rightarrow> Some (reset_with S (env1\<lparr>np_random := s2\<rparr>) x g)))"

text \<open>
  A run of \<^verbatim>\<open>Peg2DEnv.step\<close> over a list of actions, one call after the other on the
  same environment, which stops at the first exception. The result carries the reward
  and the \<^verbatim>\<open>done\<close> flag of every step, oldest first.
\<close>

fun Peg2DEnv_steps ::
  "('x, 'i) simulator \<Rightarrow> ('x, 'i) Peg2DEnv \<Rightarrow> action list
     \<Rightarrow> py_error + (('x, 'i) Peg2DEnv \<times> (real \<times> bool) list)" where
  "Peg2DEnv_steps S env [] = Inr (env, [])"
| "Peg2DEnv_steps S env (a # as) =
     (case Peg2DEnv_step S env a of
        Inl e \<Rightarrow> Inl e
      | Inr (env1, ob, reward, dn) \<Rightarrow>
          (case Peg2DEnv_steps S env1 as of
             Inl e \<Rightarrow> Inl e
           | Inr (env2, tr) \<Rightarrow> Inr (env2, (reward, dn) # tr)))"

text \<open>
  The number of steps at the end of a run whose reward was exactly 0.
\<close>

definition trailing_zero_rewards :: "(real \<times> bool) list \<Rightarrow> nat" where
  "trailing_zero_rewards tr = length (takeWhile (\<lambda>p. fst p = 0) (rev tr))"

section \<open>Sample collaborators and environments\<close>

text \<open>
  A small kinematic simulator on which the definitions can be evaluated: \<open>set_state\<close>
  stores its arguments, one frame moves each controlled joint by a hundredth of its
  control, the body \<^verbatim>\<open>object\<close> sits at the first two joint positions and the body
  \<^verbatim>\<open>goal\<close> at the next two, and there is nothing to render.
\<close>

definition sample_simulator :: "(unit, unit) simulator" where
  "sample_simulator =
     \<lparr>set_state = (\<lambda>q v d. d\<lparr>qpos := q, qvel := v\<rparr>),
      do_simulation = (\<lambda>c n d.
         d\<lparr>qpos := map (\<lambda>(x, u). x + u * real n / 100) (zip (qpos d) c)
                      @ drop (length c) (qpos d)\<rparr>),
      get_body_com = (\<lambda>name d.
         if name = ''object'' then (qpos d ! 0, qpos d ! 1, 0) else (qpos d ! 2, qpos d ! 3, 0)),
      render_grey = (\<lambda>w h d. ())\<rparr>"

text \<open>
  The registered environment \<^verbatim>\<open>PointMassDiscrete-v0\<close> with the point mass at \<open>(x, y)\<close> and
  the goal at \<open>(gx, gy)\<close>.
\<close>

definition sample_point_env :: "real \<Rightarrow> real \<Rightarrow> real \<Rightarrow> real \<Rightarrow> unit PointMassEnv" where
  "sample_point_env x y gx gy =
     \<lparr>controls = \<lparr>k = 1, goals = [gx, gy], index = 0\<rparr>,
      discrete = True,
      a_dict = PointMassEnv_a_dict,
      frame_skip = 10,
      sim = \<lparr>qpos = [x, y, gx, gy], qvel = [0, 0, 0, 0], internals = ()\<rparr>\<rparr>"

text \<open>
  A discrete peg environment with the full table of scale 1, the observation keys
  \<^verbatim>\<open>x\<close> and \<^verbatim>\<open>goal\<close>, the goal \<open>g\<close> and the arm at rest.
\<close>

definition sample_peg_env :: "bool \<Rightarrow> real \<Rightarrow> (unit, unit) Peg2DEnv" where
  "sample_peg_env on_goal g =
     \<lparr>peg_discrete = True,
      done_on_goal = on_goal,
      peg_a_dict = Peg2DEnv_a_dict 1 False,
      obs_keys = [''x'', ''goal''],
      free = False,
      peg_frame_skip = 10,
      goal_low = - 0.02,
      goal_high = 0.02,
      width = 64,
      height = 64,
      goal = Some [g],
      goal_img = None,
      reach_counts = 0,
      np_random = (\<lambda>i. 1 / 2),
      peg_sim = \<lparr>qpos = [0, 0, 0, g], qvel = [0, 0, 0, 0], internals = ()\<rparr>\<rparr>"

section \<open>Auxiliary facts\<close>

lemma Peg2DEnv_a_dict_full:
  "Peg2DEnv_a_dict c False =
     [(- c, - c, - c), (- c, - c, 0), (- c, - c, c),
      (- c, 0, - c), (- c, 0, 0), (- c, 0, c),
      (- c, c, - c), (- c, c, 0), (- c, c, c),
      (0, - c, - c), (0, - c, 0), (0, - c, c),
      (0, 0, - c), (0, 0, 0), (0, 0, c),
      (0, c, - c), (0, c, 0), (0, c, c),
      (c, - c, - c), (c, - c, 0), (c, - c, c),
      (c, 0, - c), (c, 0, 0), (c, 0, c),
      (c, c, - c), (c, c, 0), (c, c, c)]"
  by (simp add: Peg2DEnv_a_dict_def Peg2DEnv_actions_def)

lemma Peg2DEnv_a_dict_id_less:
  "Peg2DEnv_a_dict c True = filter (\<lambda>t. t \<noteq> (0, 0, 0)) (Peg2DEnv_a_dict c False)"
  by (simp add: Peg2DEnv_a_dict_def Peg2DEnv_actions_def)

lemma below_three: "(i::nat) < 3 \<Longrightarrow> i = 0 \<or> i = 1 \<or> i = 2"
  by arith

lemma Peg2DEnv_a_dict_nth:
  "i < 3 \<Longrightarrow> j < 3 \<Longrightarrow> l < 3 \<Longrightarrow>
     Peg2DEnv_a_dict c False ! (9 * i + 3 * j + l)
       = (Peg2DEnv_actions c ! i, Peg2DEnv_actions c ! j, Peg2DEnv_actions c ! l)"
  apply (drule below_three)+
  apply (simp only: Peg2DEnv_a_dict_full Peg2DEnv_actions_def)
  apply (elim disjE; simp)
  done

lemma py_getitem_cases:
  "py_getitem xs i =
     (if 0 \<le> i \<and> i < int (length xs) then Inr (xs ! nat i)
      else if - int (length xs) \<le> i \<and> i < 0 then Inr (xs ! nat (int (length xs) + i))
      else Inl IndexError)"
  by (simp add: py_getitem_def Let_def)

lemma sum_squares_nonneg: "0 \<le> sum_list (map (\<lambda>x. x * x) (v::real list))"
  by (induction v) simp_all

lemma linalg_norm_less: "0 < c \<Longrightarrow> linalg_norm v < c \<longleftrightarrow> sum_list (map (\<lambda>x. x * x) v) < c * c"
proof -
  assume c: "0 < c"
  have "sqrt (c * c) = c" using c by simp
  then have "linalg_norm v < c \<longleftrightarrow> sqrt (sum_list (map (\<lambda>x. x * x) v)) < sqrt (c * c)"
    by (simp add: linalg_norm_def)
  then show ?thesis by (simp only: real_sqrt_less_iff)
qed

lemma linalg_norm_threshold:
  "linalg_norm v * 50 < 1 \<longleftrightarrow> sum_list (map (\<lambda>x. x * x) v) * 2500 < 1"
  using linalg_norm_less [of "1 / 50" v] by simp

lemma linalg_norm_axis: "linalg_norm [x, 0] = \<bar>x\<bar>"
  by (simp add: linalg_norm_def)

lemma sum_squares_zero:
  "sum_list (map (\<lambda>x. x * x) (v::real list)) = 0 \<longleftrightarrow> (\<forall>x\<in>set v. x = 0)"
proof (induction v)
  case Nil
  then show ?case by simp
next
  case (Cons a v)
  have "a * a + sum_list (map (\<lambda>x. x * x) v) = 0
          \<longleftrightarrow> a * a = 0 \<and> sum_list (map (\<lambda>x. x * x) v) = 0"
    using sum_squares_nonneg [of v] by (intro add_nonneg_eq_0_iff) simp_all
  with Cons show ?case by simp
qed

lemma linalg_norm_zero: "linalg_norm v = 0 \<longleftrightarrow> (\<forall>x\<in>set v. x = 0)"
  by (simp add: linalg_norm_def sum_squares_zero)

lemma PointMassEnv_a_dict_list:
  "PointMassEnv_a_dict =
     [(- 0.5, - 0.5), (- 0.5, 0), (- 0.5, 0.5), (0, - 0.5), (0, 0.5),
      (0.5, - 0.5), (0.5, 0), (0.5, 0.5)]"
  by (simp add: PointMassEnv_a_dict_def PointMassEnv_actions_def)

lemmas point_mass_eval =
  PointMassEnv_step_def PointMassEnv_control_def PointMassEnv_pre_state_def
  PointMassEnv_get_delta_def PointMassEnv_get_obs_def PointMassEnv_get_reward_def
  sample_simulator_def sample_point_env_def py_int_def py_getitem_cases np_sub_def
  fill_prefix_def linalg_norm_threshold linalg_norm_axis PointMassEnv_a_dict_list Let_def

lemma linalg_norm_Cons_zero: "linalg_norm (0 # v) = linalg_norm v"
  by (simp add: linalg_norm_def)

lemma linalg_norm_single: "linalg_norm [x] = \<bar>x\<bar>"
  by (simp add: linalg_norm_def)

lemmas peg_eval =
  Peg2DEnv_step_def Peg2DEnv_control_def Peg2DEnv_get_obs_def Peg2DEnv_pre_state_def
  reach_update_def fill_suffix_def fill_from_def sample_peg_env_def sample_simulator_def
  Peg2DEnv_a_dict_full py_getitem_cases py_int_def linalg_norm_Cons_zero linalg_norm_single
  Let_def

lemma Peg2DEnv_get_obs_fields:
  "Peg2DEnv_get_obs S env = Inr (env1, ob) \<Longrightarrow>
     done_on_goal env1 = done_on_goal env \<and> reach_counts env1 = reach_counts env"
  by (auto simp add: Peg2DEnv_get_obs_def Let_def split: if_splits option.splits prod.splits)

lemma Peg2DEnv_step_Inr:
  assumes "Peg2DEnv_step S env a = Inr (env', ob, reward, dn)"
  shows "\<exists>c. Peg2DEnv_control env a = Inr c
          \<and> reward = - linalg_norm c
          \<and> done_on_goal env' = done_on_goal env
          \<and> (reach_counts env', dn) = reach_update (done_on_goal env) (reach_counts env) reward"
proof (cases "Peg2DEnv_control env a")
  case (Inl e)
  with assms show ?thesis by (simp add: Peg2DEnv_step_def Let_def)
next
  case (Inr c)
  let ?e = "env\<lparr>peg_sim := do_simulation S c (peg_frame_skip env) (Peg2DEnv_pre_state S env)\<rparr>"
  show ?thesis
  proof (cases "Peg2DEnv_get_obs S ?e")
    case (Inl e)
    with assms Inr show ?thesis by (simp add: Peg2DEnv_step_def Let_def)
  next
    case obs: (Inr p)
    obtain env1 ob1 where p: "p = (env1, ob1)" by (cases p)
    from obs p have f: "done_on_goal env1 = done_on_goal env \<and> reach_counts env1 = reach_counts env"
      using Peg2DEnv_get_obs_fields [of S ?e env1 ob1] by simp
    from assms Inr obs p have
      "env' = env1\<lparr>reach_counts :=
                 fst (reach_update (done_on_goal env1) (reach_counts env1) (- linalg_norm c))\<rparr>
       \<and> reward = - linalg_norm c
       \<and> dn = snd (reach_update (done_on_goal env1) (reach_counts env1) (- linalg_norm c))"
      by (auto simp add: Peg2DEnv_step_def Let_def case_prod_beta)
    with f Inr show ?thesis by simp
  qed
qed

lemma reach_update_eq:
  "reach_update og rc r =
     (if og \<and> (if r = 0 then rc + 1 else 0) > 1 then (0, True)
      else ((if r = 0 then rc + 1 else 0), False))"
  by (simp add: reach_update_def Let_def)

lemma reset_with_fields:
  assumes "reset_with S e x g = Inr (env, ob)"
  shows "reach_counts env = reach_counts e \<and> done_on_goal env = done_on_goal e"
proof (cases g)
  case Nil
  with assms show ?thesis by (simp add: reset_with_def)
next
  case (Cons g0 gs)
  show ?thesis
  proof (cases gs)
    case (Cons h hs)
    with assms \<open>g = g0 # gs\<close> show ?thesis by (simp add: reset_with_def)
  next
    case Nil
    with assms \<open>g = g0 # gs\<close> show ?thesis
      by (auto simp add: reset_with_def Let_def case_prod_beta split: sum.splits
            dest!: Peg2DEnv_get_obs_fields)
  qed
qed

lemma Peg2DEnv_reset_model_fields:
  assumes "Peg2DEnv_reset_model S e x g = Some (Inr (env, ob))"
  shows "reach_counts env = 0 \<and> done_on_goal env = done_on_goal e"
  using assms
  by (auto simp add: Peg2DEnv_reset_model_def Let_def
        split: option.splits sum.splits prod.splits dest!: reset_with_fields)

lemma Peg2DEnv_steps_snoc:
  "Peg2DEnv_steps S env (as @ [a]) =
     (case Peg2DEnv_steps S env as of
        Inl e \<Rightarrow> Inl e
      | Inr (env1, tr) \<Rightarrow>
          (case Peg2DEnv_step S env1 a of
             Inl e \<Rightarrow> Inl e
           | Inr (env2, ob, r, d) \<Rightarrow> Inr (env2, tr @ [(r, d)])))"
  by (induction as arbitrary: env) (auto split: sum.splits prod.splits)

lemma trailing_zero_rewards_snoc:
  "trailing_zero_rewards (tr @ [(r, d)]) = (if r = 0 then Suc (trailing_zero_rewards tr) else 0)"
  by (simp add: trailing_zero_rewards_def)

lemma trailing_zero_rewards_Nil: "trailing_zero_rewards [] = 0"
  by (simp add: trailing_zero_rewards_def)

lemma reach_counts_run:
  assumes "reach_counts env = 0"
    and "Peg2DEnv_steps S env as = Inr (env', tr)"
  shows "done_on_goal env' = done_on_goal env
       \<and> reach_counts env' = (if done_on_goal env then int (trailing_zero_rewards tr mod 2)
                              else int (trailing_zero_rewards tr))
       \<and> (\<forall>n<length tr. snd (tr ! n) \<longleftrightarrow>
             done_on_goal env \<and> 0 < trailing_zero_rewards (take (Suc n) tr)
               \<and> even (trailing_zero_rewards (take (Suc n) tr)))"
  using assms(2)
proof (induction as arbitrary: env' tr rule: rev_induct)
  case Nil
  then show ?case using assms(1) by (simp add: trailing_zero_rewards_Nil)
next
  case (snoc a as)
  from snoc.prems obtain env1 tr1 ob r d where
    run: "Peg2DEnv_steps S env as = Inr (env1, tr1)" and
    st: "Peg2DEnv_step S env1 a = Inr (env', ob, r, d)" and
    tr: "tr = tr1 @ [(r, d)]"
    by (auto simp add: Peg2DEnv_steps_snoc split: sum.splits prod.splits)
  from snoc.IH [OF run] have
    og: "done_on_goal env1 = done_on_goal env" and
    rc: "reach_counts env1 = (if done_on_goal env then int (trailing_zero_rewards tr1 mod 2)
                              else int (trailing_zero_rewards tr1))" and
    dn: "\<forall>n<length tr1. snd (tr1 ! n) \<longleftrightarrow>
             done_on_goal env \<and> 0 < trailing_zero_rewards (take (Suc n) tr1)
               \<and> even (trailing_zero_rewards (take (Suc n) tr1))"
    by blast+
  from Peg2DEnv_step_Inr [OF st] og have
    og': "done_on_goal env' = done_on_goal env" and
    upd: "(reach_counts env', d) = reach_update (done_on_goal env) (reach_counts env1) r"
    by auto
  have tz: "trailing_zero_rewards tr = (if r = 0 then Suc (trailing_zero_rewards tr1) else 0)"
    by (simp add: tr trailing_zero_rewards_snoc)
  have par: "trailing_zero_rewards tr1 mod 2 = 0 \<or> trailing_zero_rewards tr1 mod 2 = 1"
    by arith
  have cnt: "reach_counts env' = (if done_on_goal env then int (trailing_zero_rewards tr mod 2)
                              else int (trailing_zero_rewards tr))"
    using upd rc tz par by (auto simp add: reach_update_eq mod_Suc split: if_splits)
  have last: "d \<longleftrightarrow> done_on_goal env \<and> 0 < trailing_zero_rewards tr
                \<and> even (trailing_zero_rewards tr)"
    using upd rc tz par
    by (auto simp add: reach_update_eq even_iff_mod_2_eq_zero mod_Suc split: if_splits)
  have "\<And>n. n < length tr \<Longrightarrow> snd (tr ! n) \<longleftrightarrow>
             done_on_goal env \<and> 0 < trailing_zero_rewards (take (Suc n) tr)
               \<and> even (trailing_zero_rewards (take (Suc n) tr))"
  proof -
    fix n assume n: "n < length tr"
    show "snd (tr ! n) \<longleftrightarrow>
             done_on_goal env \<and> 0 < trailing_zero_rewards (take (Suc n) tr)
               \<and> even (trailing_zero_rewards (take (Suc n) tr))"
    proof (cases "n < length tr1")
      case True
      then have "tr ! n = tr1 ! n" and "take (Suc n) tr = take (Suc n) tr1"
        by (simp_all add: tr nth_append)
      with dn True show ?thesis by simp
    next
      case False
      with n have "n = length tr1" by (simp add: tr)
      then have "tr ! n = (r, d)" and "take (Suc n) tr = tr"
        by (simp_all add: tr)
      with last show ?thesis by simp
    qed
  qed
  with og' cnt show ?case by blast
qed

lemma Peg2DEnv_control_discrete:
  assumes "peg_discrete env" and "Peg2DEnv_control env a = Inr c"
  shows "\<exists>i x y z g. py_int a = Inr i \<and> py_getitem (peg_a_dict env) i = Inr (x, y, z)
           \<and> goal env = Some g \<and> c = [x, y, z] @ g"
proof (cases "py_int a")
  case (Inl e)
  with assms show ?thesis by (simp add: Peg2DEnv_control_def)
next
  case i: (Inr i)
  show ?thesis
  proof (cases "py_getitem (peg_a_dict env) i")
    case (Inl e)
    with assms i show ?thesis by (simp add: Peg2DEnv_control_def)
  next
    case t: (Inr t)
    obtain x y z where xyz: "t = (x, y, z)" by (cases t)
    show ?thesis
    proof (cases "goal env")
      case None
      with assms i t xyz show ?thesis by (simp add: Peg2DEnv_control_def)
    next
      case (Some g)
      with assms i t xyz have "c = [x, y, z] @ g" by (simp add: Peg2DEnv_control_def)
      with i t xyz Some show ?thesis by blast
    qed
  qed
qed

lemma pi_greater_three: "3 < pi"
proof -
  have pos: "0 < sin (pi / 12)"
    by (rule sin_gt_zero) (simp_all)
  have le: "sin (pi / 12) \<le> pi / 12"
    by (rule sin_x_le_x) simp
  have "cos (pi / 12) < cos 0"
    by (rule cos_monotone_0_pi) simp_all
  then have c1: "cos (pi / 12) < 1" by simp
  have "sin (pi / 6) = 2 * sin (pi / 12) * cos (pi / 12)"
    using sin_double [of "pi / 12"] by simp
  then have "1 / 2 = 2 * sin (pi / 12) * cos (pi / 12)"
    by (simp add: sin_30)
  also have "\<dots> < 2 * sin (pi / 12) * 1"
    using pos c1 by (intro mult_strict_left_mono) simp_all
  also have "\<dots> \<le> 2 * (pi / 12)"
    using le by simp
  finally show ?thesis by simp
qed

lemma rng_skip_skip: "rng_skip a (rng_skip b s) = rng_skip (b + a) s"
  by (simp add: rng_skip_def ac_simps)

lemma rng_skip_zero: "rng_skip 0 s = s"
  by (simp add: rng_skip_def)

lemma upt_four: "[0..<4] = [0, 1, 2, 3]"
  by (simp add: upt_rec)

lemma goal_batch_eq:
  "goal_batch low high s =
     ([[low + (high - low) * s 0], [low + (high - low) * s 1],
       [low + (high - low) * s 2], [low + (high - low) * s 3]], rng_skip 4 s)"
  by (simp add: goal_batch_def rng_uniform_def upt_four)

lemma state_batch_eq:
  "state_batch s =
     (map (\<lambda>i. [- 1.5 + 3 * s (3 * i),
                - (- 1.5 + 3 * s (3 * i)) - sgn (- 1.5 + 3 * s (3 * i)) * (pi / 2 * s (12 + i)),
                sgn (- 1.5 + 3 * s (3 * i)) * (pi / 2 * s (12 + i)) + pi / 4 * s (16 + i)])
          [0, 1, 2, 3],
      rng_skip 20 s)"
  by (simp add: state_batch_def rng_uniform_def upt_four rng_skip_def Let_def ac_simps)

lemma first_accepted_Some:
  "first_accepted good cs = Inr (Some c) \<Longrightarrow> c \<in> set cs \<and> good c = Inr True"
  by (induction cs) (auto split: sum.splits if_splits)

lemma good_goal_single: "good_goal [v] = Inr (v < 0.26 \<and> - 0.26 < v)"
  by (simp add: good_goal_def)

lemma goal_batch_no_error: "first_accepted good_goal (fst (goal_batch low high s)) \<noteq> Inl e"
  by (simp add: goal_batch_eq good_goal_single)

lemma get_goal_returns:
  assumes "\<forall>m<n. first_accepted good_goal (fst (goal_batch low high (rng_skip (4 * m) s))) = Inr None"
    and "first_accepted good_goal (fst (goal_batch low high (rng_skip (4 * n) s))) = Inr (Some g)"
  shows "Peg2DEnv_get_goal low high s = Some (Inr (g, rng_skip (4 * Suc n) s))"
  using assms
proof (induction n arbitrary: s)
  case 0
  then have "first_accepted good_goal (fst (goal_batch low high s)) = Inr (Some g)"
    by (simp add: rng_skip_zero)
  moreover have "snd (goal_batch low high s) = rng_skip 4 s"
    by (simp add: goal_batch_eq)
  ultimately show ?case
    by (subst Peg2DEnv_get_goal.simps) (simp add: case_prod_beta)
next
  case (Suc n)
  from Suc.prems(1) have "first_accepted good_goal (fst (goal_batch low high (rng_skip (4 * 0) s))) = Inr None"
    by blast
  then have rej: "first_accepted good_goal (fst (goal_batch low high s)) = Inr None"
    by (simp add: rng_skip_zero)
  have nxt: "snd (goal_batch low high s) = rng_skip 4 s"
    by (simp add: goal_batch_eq)
  have unfold: "Peg2DEnv_get_goal low high s = Peg2DEnv_get_goal low high (rng_skip 4 s)"
    using rej nxt by (subst Peg2DEnv_get_goal.simps) (simp add: case_prod_beta)
  have a: "\<forall>m<n. first_accepted good_goal
             (fst (goal_batch low high (rng_skip (4 * m) (rng_skip 4 s)))) = Inr None"
  proof (intro allI impI)
    fix m assume "m < n"
    then have "Suc m < Suc n" by simp
    with Suc.prems(1) have "first_accepted good_goal
             (fst (goal_batch low high (rng_skip (4 * Suc m) s))) = Inr None"
      by blast
    then show "first_accepted good_goal
             (fst (goal_batch low high (rng_skip (4 * m) (rng_skip 4 s)))) = Inr None"
      by (simp add: rng_skip_skip)
  qed
  have b: "first_accepted good_goal
             (fst (goal_batch low high (rng_skip (4 * n) (rng_skip 4 s)))) = Inr (Some g)"
    using Suc.prems(2) by (simp add: rng_skip_skip)
  from Suc.IH [OF a b] unfold show ?case
    by (simp add: rng_skip_skip)
qed

lemma get_goal_only:
  assumes "Peg2DEnv_get_goal low high s = Some y"
  shows "\<exists>n g. (\<forall>m<n. first_accepted good_goal
                      (fst (goal_batch low high (rng_skip (4 * m) s))) = Inr None)
           \<and> first_accepted good_goal (fst (goal_batch low high (rng_skip (4 * n) s)))
               = Inr (Some g)
           \<and> y = Inr (g, rng_skip (4 * Suc n) s)"
proof (rule Peg2DEnv_get_goal.raw_induct
    [where P = "\<lambda>low high s y. \<exists>n g.
         (\<forall>m<n. first_accepted good_goal
                      (fst (goal_batch low high (rng_skip (4 * m) s))) = Inr None)
           \<and> first_accepted good_goal (fst (goal_batch low high (rng_skip (4 * n) s)))
               = Inr (Some g)
           \<and> y = Inr (g, rng_skip (4 * Suc n) s)", OF _ assms], goal_cases)
  case (1 f low high s y)
  have nxt: "snd (goal_batch low high s) = rng_skip 4 s"
    by (simp add: goal_batch_eq)
  show ?case
  proof (cases "first_accepted good_goal (fst (goal_batch low high s))")
    case (Inl e)
    then show ?thesis using goal_batch_no_error by blast
  next
    case (Inr r)
    show ?thesis
    proof (cases r)
      case (Some g)
      with Inr 1(2) nxt have "y = Inr (g, rng_skip 4 s)"
        by (simp add: case_prod_beta)
      moreover have "first_accepted good_goal (fst (goal_batch low high (rng_skip (4 * 0) s)))
               = Inr (Some g)"
        using Inr Some by (simp add: rng_skip_zero)
      ultimately show ?thesis
        by (intro exI [of _ 0] exI [of _ g]) simp
    next
      case None
      with Inr 1(2) nxt have "f low high (rng_skip 4 s) = Some y"
        by (simp add: case_prod_beta)
      from 1(1) [OF this] obtain n g where
        a: "\<forall>m<n. first_accepted good_goal
              (fst (goal_batch low high (rng_skip (4 * m) (rng_skip 4 s)))) = Inr None" and
        b: "first_accepted good_goal
              (fst (goal_batch low high (rng_skip (4 * n) (rng_skip 4 s)))) = Inr (Some g)" and
        c: "y = Inr (g, rng_skip (4 * Suc n) (rng_skip 4 s))"
        by blast
      have a': "\<forall>m<Suc n. first_accepted good_goal
              (fst (goal_batch low high (rng_skip (4 * m) s))) = Inr None"
      proof (intro allI impI)
        fix m assume m: "m < Suc n"
        show "first_accepted good_goal
              (fst (goal_batch low high (rng_skip (4 * m) s))) = Inr None"
        proof (cases m)
          case 0
          with Inr None show ?thesis by (simp add: rng_skip_zero)
        next
          case (Suc m')
          with m have "m' < n" by simp
          with a have "first_accepted good_goal
              (fst (goal_batch low high (rng_skip (4 * m') (rng_skip 4 s)))) = Inr None"
            by blast
          then show ?thesis using Suc by (simp add: rng_skip_skip)
        qed
      qed
      have b': "first_accepted good_goal
              (fst (goal_batch low high (rng_skip (4 * Suc n) s))) = Inr (Some g)"
        using b by (simp add: rng_skip_skip)
      have c': "y = Inr (g, rng_skip (4 * Suc (Suc n)) s)"
        using c by (simp add: rng_skip_skip)
      from a' b' c' show ?thesis by blast
    qed
  qed
qed

lemma good_state_triple: "good_state [x, y, z] = Inr (x < pi / 2 \<and> - pi / 2 < x)"
  by (simp add: good_state_def)

lemma state_batch_no_error: "first_accepted good_state (fst (state_batch s)) \<noteq> Inl e"
  by (simp add: state_batch_eq good_state_triple)

lemma get_state_returns:
  assumes "\<forall>m<n. first_accepted good_state (fst (state_batch (rng_skip (20 * m) s))) = Inr None"
    and "first_accepted good_state (fst (state_batch (rng_skip (20 * n) s))) = Inr (Some g)"
  shows "Peg2DEnv_get_state s = Some (Inr (g, rng_skip (20 * Suc n) s))"
  using assms
proof (induction n arbitrary: s)
  case 0
  then have "first_accepted good_state (fst (state_batch s)) = Inr (Some g)"
    by (simp add: rng_skip_zero)
  moreover have "snd (state_batch s) = rng_skip 20 s"
    by (simp add: state_batch_eq)
  ultimately show ?case
    by (subst Peg2DEnv_get_state.simps) (simp add: case_prod_beta)
next
  case (Suc n)
  from Suc.prems(1) have "first_accepted good_state (fst (state_batch (rng_skip (20 * 0) s))) = Inr None"
    by blast
  then have rej: "first_accepted good_state (fst (state_batch s)) = Inr None"
    by (simp add: rng_skip_zero)
  have nxt: "snd (state_batch s) = rng_skip 20 s"
    by (simp add: state_batch_eq)
  have unfold: "Peg2DEnv_get_state s = Peg2DEnv_get_state (rng_skip 20 s)"
    using rej nxt by (subst Peg2DEnv_get_state.simps) (simp add: case_prod_beta)
  have a: "\<forall>m<n. first_accepted good_state
             (fst (state_batch (rng_skip (20 * m) (rng_skip 20 s)))) = Inr None"
  proof (intro allI impI)
    fix m assume "m < n"
    then have "Suc m < Suc n" by simp
    with Suc.prems(1) have "first_accepted good_state
             (fst (state_batch (rng_skip (20 * Suc m) s))) = Inr None"
      by blast
    then show "first_accepted good_state
             (fst (state_batch (rng_skip (20 * m) (rng_skip 20 s)))) = Inr None"
      by (simp add: rng_skip_skip)
  qed
  have b: "first_accepted good_state
             (fst (state_batch (rng_skip (20 * n) (rng_skip 20 s)))) = Inr (Some g)"
    using Suc.prems(2) by (simp add: rng_skip_skip)
  from Suc.IH [OF a b] unfold show ?case
    by (simp add: rng_skip_skip)
qed

lemma get_state_only:
  assumes "Peg2DEnv_get_state s = Some y"
  shows "\<exists>n g. (\<forall>m<n. first_accepted good_state
                      (fst (state_batch (rng_skip (20 * m) s))) = Inr None)
           \<and> first_accepted good_state (fst (state_batch (rng_skip (20 * n) s)))
               = Inr (Some g)
           \<and> y = Inr (g, rng_skip (20 * Suc n) s)"
proof (rule Peg2DEnv_get_state.raw_induct
    [where P = "\<lambda>s y. \<exists>n g.
         (\<forall>m<n. first_accepted good_state
                      (fst (state_batch (rng_skip (20 * m) s))) = Inr None)
           \<and> first_accepted good_state (fst (state_batch (rng_skip (20 * n) s)))
               = Inr (Some g)
           \<and> y = Inr (g, rng_skip (20 * Suc n) s)", OF _ assms], goal_cases)
  case (1 f s y)
  have nxt: "snd (state_batch s) = rng_skip 20 s"
    by (simp add: state_batch_eq)
  show ?case
  proof (cases "first_accepted good_state (fst (state_batch s))")
    case (Inl e)
    then show ?thesis using state_batch_no_error by blast
  next
    case (Inr r)
    show ?thesis
    proof (cases r)
      case (Some g)
      with Inr 1(2) nxt have "y = Inr (g, rng_skip 20 s)"
        by (simp add: case_prod_beta)
      moreover have "first_accepted good_state (fst (state_batch (rng_skip (20 * 0) s)))
               = Inr (Some g)"
        using Inr Some by (simp add: rng_skip_zero)
      ultimately show ?thesis
        by (intro exI [of _ 0] exI [of _ g]) simp
    next
      case None
      with Inr 1(2) nxt have "f (rng_skip 20 s) = Some y"
        by (simp add: case_prod_beta)
      from 1(1) [OF this] obtain n g where
        a: "\<forall>m<n. first_accepted good_state
              (fst (state_batch (rng_skip (20 * m) (rng_skip 20 s)))) = Inr None" and
        b: "first_accepted good_state
              (fst (state_batch (rng_skip (20 * n) (rng_skip 20 s)))) = Inr (Some g)" and
        c: "y = Inr (g, rng_skip (20 * Suc n) (rng_skip 20 s))"
        by blast
      have a': "\<forall>m<Suc n. first_accepted good_state
              (fst (state_batch (rng_skip (20 * m) s))) = Inr None"
      proof (intro allI impI)
        fix m assume m: "m < Suc n"
        show "first_accepted good_state
              (fst (state_batch (rng_skip (20 * m) s))) = Inr None"
        proof (cases m)
          case 0
          with Inr None show ?thesis by (simp add: rng_skip_zero)
        next
          case (Suc m')
          with m have "m' < n" by simp
          with a have "first_accepted good_state
              (fst (state_batch (rng_skip (20 * m') (rng_skip 20 s)))) = Inr None"
            by blast
          then show ?thesis using Suc by (simp add: rng_skip_skip)
        qed
      qed
      have b': "first_accepted good_state
              (fst (state_batch (rng_skip (20 * Suc n) s))) = Inr (Some g)"
        using b by (simp add: rng_skip_skip)
      have c': "y = Inr (g, rng_skip (20 * Suc (Suc n)) s)"
        using c by (simp add: rng_skip_skip)
      from a' b' c' show ?thesis by blast
    qed
  qed
qed

lemma unit_draws_first_joint:
  assumes "unit_draws s"
  shows "- pi / 2 < - 1.5 + 3 * s i \<and> - 1.5 + 3 * s i < pi / 2"
proof -
  from assms have "0 \<le> s i" and "s i < 1"
    by (simp_all add: unit_draws_def)
  with pi_greater_three show ?thesis by simp
qed

lemma state_batch_all_good:
  assumes "unit_draws s"
  shows "\<forall>c\<in>set (fst (state_batch s)). good_state c = Inr True"
  using unit_draws_first_joint [OF assms]
  by (simp add: state_batch_eq good_state_triple)

lemma state_batch_first_accepted:
  assumes "unit_draws s"
  shows "first_accepted good_state (fst (state_batch s)) = Inr (Some (fst (state_batch s) ! 0))"
  using unit_draws_first_joint [OF assms, of 0]
  by (simp add: state_batch_eq good_state_triple)

lemma state_batch_shape:
  assumes "c \<in> set (fst (state_batch s))"
  shows "\<exists>x sp ex. c = [x, - x - sgn x * sp, sgn x * sp + ex]"
  using assms
  apply (simp only: state_batch_def case_prod_beta Let_def fst_conv set_map)
  apply (erule imageE)
  apply (intro exI)
  apply assumption
  done

lemma first_accepted_None_iff:
  "first_accepted good cs = Inr None \<longleftrightarrow> (\<forall>r<length cs. good (cs ! r) = Inr False)"
proof (induction cs)
  case Nil
  show ?case by simp
next
  case (Cons c cs)
  show ?case
  proof (cases "good c")
    case (Inl e)
    then show ?thesis by (auto simp add: All_less_Suc2)
  next
    case (Inr b)
    with Cons show ?thesis by (cases b) (simp_all add: All_less_Suc2)
  qed
qed

lemma first_accepted_Some_iff:
  "first_accepted good cs = Inr (Some g) \<longleftrightarrow>
     (\<exists>i<length cs. (\<forall>r<i. good (cs ! r) = Inr False) \<and> good (cs ! i) = Inr True \<and> g = cs ! i)"
proof (induction cs)
  case Nil
  show ?case by simp
next
  case (Cons c cs)
  show ?case
  proof (cases "good c")
    case (Inl e)
    then show ?thesis by (auto simp add: Ex_less_Suc2 All_less_Suc2)
  next
    case (Inr b)
    show ?thesis
    proof (cases b)
      case True
      with Inr show ?thesis by (auto simp add: Ex_less_Suc2 All_less_Suc2)
    next
      case False
      with Inr Cons show ?thesis by (simp add: Ex_less_Suc2 All_less_Suc2)
    qed
  qed
qed

lemma goal_batch_length: "length (fst (goal_batch low high t)) = 4"
  by (simp add: goal_batch_eq)

lemma goal_batch_nth:
  "r < 4 \<Longrightarrow> fst (goal_batch low high t) ! r = [low + (high - low) * t r]"
  by (simp add: goal_batch_def rng_uniform_def)

lemma draws_before:
  "(\<forall>j < 4 * n + i. P j) \<longleftrightarrow> (\<forall>m<n. \<forall>r<4. P (r + 4 * m)) \<and> (\<forall>r<i. P (r + 4 * n))"
  (is "?L \<longleftrightarrow> ?R")
  for n i :: nat
proof
  assume l: ?L
  show ?R
  proof (intro conjI allI impI)
    fix m r :: nat assume "m < n" "r < 4"
    then have "r + 4 * m < 4 * n + i" by arith
    with l show "P (r + 4 * m)" by blast
  next
    fix r assume "r < i"
    then have "r + 4 * n < 4 * n + i" by arith
    with l show "P (r + 4 * n)" by blast
  qed
next
  assume r: ?R
  show ?L
  proof (intro allI impI)
    fix j assume j: "j < 4 * n + i"
    show "P j"
    proof (cases "j < 4 * n")
      case True
      then have "j div 4 < n" and "j mod 4 < 4" by arith+
      with r have "P (j mod 4 + 4 * (j div 4))" by blast
      then show ?thesis by simp
    next
      case False
      with j have "j - 4 * n < i" by arith
      with r have "P ((j - 4 * n) + 4 * n)" by blast
      with False show ?thesis by simp
    qed
  qed
qed

lemma goal_batch_rejects_iff:
  "first_accepted good_goal (fst (goal_batch low high (rng_skip (4 * m) s))) = Inr None
     \<longleftrightarrow> (\<forall>r<4. good_goal [low + (high - low) * s (r + 4 * m)] = Inr False)"
  by (auto simp add: first_accepted_None_iff goal_batch_length goal_batch_nth rng_skip_def)

lemma goal_batch_accepts_iff:
  "first_accepted good_goal (fst (goal_batch low high (rng_skip (4 * n) s))) = Inr (Some g)
     \<longleftrightarrow> (\<exists>i<4. (\<forall>r<i. good_goal [low + (high - low) * s (r + 4 * n)] = Inr False)
              \<and> good_goal [low + (high - low) * s (i + 4 * n)] = Inr True
              \<and> g = [low + (high - low) * s (i + 4 * n)])"
  (is "?L \<longleftrightarrow> ?R")
proof
  assume ?L
  then obtain i where i: "i < 4"
    and rej: "\<forall>r<i. good_goal (fst (goal_batch low high (rng_skip (4 * n) s)) ! r) = Inr False"
    and acc: "good_goal (fst (goal_batch low high (rng_skip (4 * n) s)) ! i) = Inr True"
    and g: "g = fst (goal_batch low high (rng_skip (4 * n) s)) ! i"
    by (auto simp add: first_accepted_Some_iff goal_batch_length)
  have "\<forall>r<i. good_goal [low + (high - low) * s (r + 4 * n)] = Inr False"
  proof (intro allI impI)
    fix r assume "r < i"
    with i rej have "r < 4"
      and "good_goal (fst (goal_batch low high (rng_skip (4 * n) s)) ! r) = Inr False"
      by simp_all
    then show "good_goal [low + (high - low) * s (r + 4 * n)] = Inr False"
      by (simp add: goal_batch_nth rng_skip_def)
  qed
  with i acc g show ?R
    by (intro exI [of _ i]) (simp add: goal_batch_nth rng_skip_def)
next
  assume ?R
  then obtain i where i: "i < 4"
    and rej: "\<forall>r<i. good_goal [low + (high - low) * s (r + 4 * n)] = Inr False"
    and acc: "good_goal [low + (high - low) * s (i + 4 * n)] = Inr True"
    and g: "g = [low + (high - low) * s (i + 4 * n)]"
    by blast
  have "\<forall>r<i. good_goal (fst (goal_batch low high (rng_skip (4 * n) s)) ! r) = Inr False"
  proof (intro allI impI)
    fix r assume "r < i"
    with i rej have "r < 4" and "good_goal [low + (high - low) * s (r + 4 * n)] = Inr False"
      by simp_all
    then show "good_goal (fst (goal_batch low high (rng_skip (4 * n) s)) ! r) = Inr False"
      by (simp add: goal_batch_nth rng_skip_def)
  qed
  moreover have "good_goal (fst (goal_batch low high (rng_skip (4 * n) s)) ! i) = Inr True"
    and "g = fst (goal_batch low high (rng_skip (4 * n) s)) ! i"
    using i acc g by (simp_all add: goal_batch_nth rng_skip_def)
  ultimately show ?L
    using i by (auto simp add: first_accepted_Some_iff goal_batch_length)
qed

lemma get_goal_by_draws:
  "Peg2DEnv_get_goal low high s = Some (Inr (g, s')) \<longleftrightarrow>
     (\<exists>n i. i < 4
        \<and> (\<forall>j < 4 * n + i. good_goal [low + (high - low) * s j] = Inr False)
        \<and> good_goal [low + (high - low) * s (4 * n + i)] = Inr True
        \<and> g = [low + (high - low) * s (4 * n + i)]
        \<and> s' = rng_skip (4 * Suc n) s)"
  (is "?L \<longleftrightarrow> ?R")
proof
  assume ?L
  from get_goal_only [OF this] obtain n where
    a: "\<forall>m<n. first_accepted good_goal
              (fst (goal_batch low high (rng_skip (4 * m) s))) = Inr None" and
    b: "first_accepted good_goal (fst (goal_batch low high (rng_skip (4 * n) s)))
          = Inr (Some g)" and
    c: "s' = rng_skip (4 * Suc n) s"
    by blast
  from b obtain i where i: "i < 4"
    and rej: "\<forall>r<i. good_goal [low + (high - low) * s (r + 4 * n)] = Inr False"
    and acc: "good_goal [low + (high - low) * s (i + 4 * n)] = Inr True"
    and g: "g = [low + (high - low) * s (i + 4 * n)]"
    using goal_batch_accepts_iff [of low high n s g] by blast
  from a have "\<forall>m<n. \<forall>r<4. good_goal [low + (high - low) * s (r + 4 * m)] = Inr False"
    using goal_batch_rejects_iff [of low high _ s] by blast
  with rej have "\<forall>j < 4 * n + i. good_goal [low + (high - low) * s j] = Inr False"
    using draws_before [of n i "\<lambda>j. good_goal [low + (high - low) * s j] = Inr False"]
    by blast
  with i acc g c show ?R
    by (intro exI [of _ n] exI [of _ i]) (simp add: add.commute)
next
  assume ?R
  then obtain n i where i: "i < 4"
    and rej: "\<forall>j < 4 * n + i. good_goal [low + (high - low) * s j] = Inr False"
    and acc: "good_goal [low + (high - low) * s (4 * n + i)] = Inr True"
    and g: "g = [low + (high - low) * s (4 * n + i)]"
    and c: "s' = rng_skip (4 * Suc n) s"
    by blast
  from rej have
    r1: "\<forall>m<n. \<forall>r<4. good_goal [low + (high - low) * s (r + 4 * m)] = Inr False" and
    r2: "\<forall>r<i. good_goal [low + (high - low) * s (r + 4 * n)] = Inr False"
    using draws_before [of n i "\<lambda>j. good_goal [low + (high - low) * s j] = Inr False"]
    by blast+
  from r1 have a: "\<forall>m<n. first_accepted good_goal
              (fst (goal_batch low high (rng_skip (4 * m) s))) = Inr None"
    using goal_batch_rejects_iff [of low high _ s] by blast
  from i r2 acc g have b: "first_accepted good_goal
      (fst (goal_batch low high (rng_skip (4 * n) s))) = Inr (Some g)"
    using goal_batch_accepts_iff [of low high n s g] by (auto simp add: add.commute)
  from get_goal_returns [OF a b] c show ?L by simp
qed

lemma good_goal_True_iff: "good_goal [v] = Inr True \<longleftrightarrow> (- 0.26 < v \<and> v < 0.26)"
  by (auto simp add: good_goal_single)

lemma good_goal_False_iff: "good_goal [v] = Inr False \<longleftrightarrow> \<not> (- 0.26 < v \<and> v < 0.26)"
  by (auto simp add: good_goal_single)

lemma PointMassEnv_control_Idx:
  "discrete env \<Longrightarrow>
     PointMassEnv_control env (Idx i) =
       (case py_getitem (a_dict env) i of
          Inl e \<Rightarrow> Inl e
        | Inr t \<Rightarrow> Inr [fst t, snd t])"
  by (simp add: PointMassEnv_control_def py_int_def case_prod_beta split: sum.splits)

lemma Peg2DEnv_control_Idx:
  "peg_discrete env \<Longrightarrow> goal env = Some g \<Longrightarrow>
     Peg2DEnv_control env (Idx i) =
       (case py_getitem (peg_a_dict env) i of
          Inl e \<Rightarrow> Inl e
        | Inr t \<Rightarrow> Inr ([fst t, fst (snd t), snd (snd t)] @ g))"
  by (simp add: Peg2DEnv_control_def py_int_def case_prod_beta split: sum.splits)

lemma Peg2DEnv_control_IndexError:
  "peg_discrete env \<Longrightarrow> py_getitem (peg_a_dict env) i = Inl e \<Longrightarrow>
     Peg2DEnv_control env (Idx i) = Inl e"
  by (simp add: Peg2DEnv_control_def py_int_def)

section \<open>The discrete action tables\<close>

text \<open>
  C4, as amended. The point-mass table is the list of the eight pairs over
  \<open>-0.5, 0, 0.5\<close> other than \<open>(0, 0)\<close>, in nested order with the first component varying
  slowest. For every scale \<open>c\<close> the unfiltered peg table has 27 entries, entry
  \<open>9 i + 3 j + l\<close> being the triple of the levels \<open>i\<close>, \<open>j\<close>, \<open>l\<close> of
  \<open>[-c, 0, c]\<close>, and the \<^verbatim>\<open>id_less\<close> table is the unfiltered one without its all-zero
  triples, in the same order. When the scale is not zero, the unfiltered table holds the
  all-zero triple exactly once and the \<^verbatim>\<open>id_less\<close> table has 26 entries, none of them
  all-zero.
\<close>

theorem action_tables:
  "PointMassEnv_a_dict =
     [(- 0.5, - 0.5), (- 0.5, 0), (- 0.5, 0.5), (0, - 0.5), (0, 0.5),
      (0.5, - 0.5), (0.5, 0), (0.5, 0.5)]
   \<and> length PointMassEnv_a_dict = 8
   \<and> (0, 0) \<notin> set PointMassEnv_a_dict
   \<and> length (Peg2DEnv_a_dict c False) = 27
   \<and> (\<forall>i<3. \<forall>j<3. \<forall>l<3.
         Peg2DEnv_a_dict c False ! (9 * i + 3 * j + l)
           = (Peg2DEnv_actions c ! i, Peg2DEnv_actions c ! j, Peg2DEnv_actions c ! l))
   \<and> Peg2DEnv_a_dict c True = filter (\<lambda>t. t \<noteq> (0, 0, 0)) (Peg2DEnv_a_dict c False)
   \<and> (c \<noteq> 0 \<longrightarrow>
         count_list (Peg2DEnv_a_dict c False) (0, 0, 0) = 1
       \<and> length (Peg2DEnv_a_dict c True) = 26
       \<and> (0, 0, 0) \<notin> set (Peg2DEnv_a_dict c True))"
proof -
  have pm: "PointMassEnv_a_dict =
     [(- 0.5, - 0.5), (- 0.5, 0), (- 0.5, 0.5), (0, - 0.5), (0, 0.5),
      (0.5, - 0.5), (0.5, 0), (0.5, 0.5)]"
    by (simp add: PointMassEnv_a_dict_def PointMassEnv_actions_def)
  have len: "length (Peg2DEnv_a_dict c False) = 27"
    by (simp add: Peg2DEnv_a_dict_full)
  have nz: "c \<noteq> 0 \<Longrightarrow> count_list (Peg2DEnv_a_dict c False) (0, 0, 0) = 1"
    by (simp add: Peg2DEnv_a_dict_full)
  have l26: "c \<noteq> 0 \<Longrightarrow> length (Peg2DEnv_a_dict c True) = 26"
    by (simp add: Peg2DEnv_a_dict_id_less Peg2DEnv_a_dict_full)
  have notin: "(0, 0, 0) \<notin> set (Peg2DEnv_a_dict c True)"
    by (simp add: Peg2DEnv_a_dict_id_less)
  have pm8: "length PointMassEnv_a_dict = 8" and pm0: "(0, 0) \<notin> set PointMassEnv_a_dict"
    by (simp_all add: pm)
  show ?thesis
    using pm pm8 pm0 len nz l26 notin Peg2DEnv_a_dict_nth [of _ _ _ c]
          Peg2DEnv_a_dict_id_less [of c]
    by blast
qed

theorem action_tables_witness:
  "Peg2DEnv_a_dict 1 False ! 13 = (0, 0, 0)
   \<and> count_list (Peg2DEnv_a_dict 1 False) (0, 0, 0) = 1
   \<and> length (Peg2DEnv_a_dict 1 True) = 26
   \<and> (0, 0, 0) \<notin> set (Peg2DEnv_a_dict 1 True)"
proof -
  have "(1::nat) < 3" by simp
  with action_tables [of 1]
  have "Peg2DEnv_a_dict 1 False ! (9 * 1 + 3 * 1 + 1)
          = (Peg2DEnv_actions 1 ! 1, Peg2DEnv_actions 1 ! 1, Peg2DEnv_actions 1 ! 1)"
    by blast
  then have mid: "Peg2DEnv_a_dict 1 False ! 13 = (0, 0, 0)"
    by (simp add: Peg2DEnv_actions_def)
  have "(1::real) \<noteq> 0" by simp
  with action_tables [of 1]
  have "count_list (Peg2DEnv_a_dict 1 False) (0, 0, 0) = 1
          \<and> length (Peg2DEnv_a_dict 1 True) = 26
          \<and> (0, 0, 0) \<notin> set (Peg2DEnv_a_dict 1 True)"
    by blast
  with mid show ?thesis by blast
qed

text \<open>
  C4 as stated fails at the scale 0, where the three levels coincide: the \<^verbatim>\<open>id_less\<close>
  table is empty and all 27 entries of the unfiltered table are all-zero.
\<close>

theorem action_tables_at_scale_zero:
  "length (Peg2DEnv_a_dict 0 True) \<noteq> 26 \<and> count_list (Peg2DEnv_a_dict 0 False) (0, 0, 0) \<noteq> 1"
  by (simp add: Peg2DEnv_a_dict_id_less Peg2DEnv_a_dict_full)

section \<open>The point-mass step\<close>

text \<open>
  C1. Whenever \<^verbatim>\<open>PointMassEnv.step\<close> returns, the observation \<open>p\<close> it returns is the first
  two joint positions of the simulator after the simulation, the reward is 0 if the
  Euclidean norm of \<open>p - g\<close> is below 0.02 and -1 otherwise, \<open>g\<close> being the goal held by
  the controls, and \<^verbatim>\<open>done\<close> is true exactly when the reward is 0.
\<close>

theorem point_mass_reward_done:
  assumes "PointMassEnv_step S env a = Inr (env', ob, reward, dn, info)"
  shows "ob = take 2 (qpos (sim env'))
       \<and> (\<exists>v. np_sub ob (goals (controls env)) = Inr v
              \<and> reward = (if linalg_norm v < 0.02 then 0 else - 1))
       \<and> (dn \<longleftrightarrow> reward = 0)"
  using assms
  by (auto simp add: PointMassEnv_step_def PointMassEnv_get_reward_def PointMassEnv_get_obs_def
        Let_def split: sum.splits if_splits)

theorem point_mass_reward_done_witness:
  "PointMassEnv_step sample_simulator (sample_point_env 0 0 0.06 0) (Idx 6)
     = Inr ((sample_point_env 0 0 0.06 0)
              \<lparr>sim := \<lparr>qpos = [0.05, 0, 0.06, 0], qvel = [0, 0, 0, 0], internals = ()\<rparr>\<rparr>,
            [0.05, 0], 0, True, \<lparr>info_dist = 0.06, info_success = 0\<rparr>)
   \<and> (\<exists>v. np_sub [0.05, 0] (goals (controls (sample_point_env 0 0 0.06 0))) = Inr v
          \<and> (0::real) = (if linalg_norm v < 0.02 then 0 else - 1))"
proof -
  have run: "PointMassEnv_step sample_simulator (sample_point_env 0 0 0.06 0) (Idx 6)
     = Inr ((sample_point_env 0 0 0.06 0)
              \<lparr>sim := \<lparr>qpos = [0.05, 0, 0.06, 0], qvel = [0, 0, 0, 0], internals = ()\<rparr>\<rparr>,
            [0.05, 0], 0, True, \<lparr>info_dist = 0.06, info_success = 0\<rparr>)"
    by (simp add: point_mass_eval)
  from point_mass_reward_done [OF run] run show ?thesis by blast
qed



section \<open>Task selection\<close>

text \<open>
  C2, as amended. \<^verbatim>\<open>sample_task(index=i)\<close> raises, with \<^verbatim>\<open>AssertionError\<close>, exactly when
  \<open>i\<close> is at least the number of tasks \<open>k\<close>; the lower bound is not checked. For every
  \<open>i\<close> below \<open>k\<close>, negative ones included, it returns \<open>i\<close> and a following
  \<^verbatim>\<open>get_goal_index()\<close> returns \<open>i\<close>. The number of tasks is left as it was.
\<close>

theorem sample_task_index:
  "(snd (PointMassEnv_sample_task drawn (Some i) env) = Inl AssertionError
      \<longleftrightarrow> k (controls env) \<le> i)
   \<and> (i < k (controls env) \<longrightarrow>
         snd (PointMassEnv_sample_task drawn (Some i) env) = Inr i
       \<and> PointMassEnv_get_goal_index (fst (PointMassEnv_sample_task drawn (Some i) env)) = i)
   \<and> k (controls (fst (PointMassEnv_sample_task drawn (Some i) env))) = k (controls env)"
  by (simp add: PointMassEnv_sample_task_def Controls_sample_task_def
        PointMassEnv_get_goal_index_def Let_def)

theorem sample_task_index_witness:
  "snd (PointMassEnv_sample_task 0 (Some 0) (sample_point_env 0 0 0 0)) = Inr 0
   \<and> PointMassEnv_get_goal_index
        (fst (PointMassEnv_sample_task 0 (Some 0) (sample_point_env 0 0 0 0))) = 0"
proof -
  have "(0::int) < k (controls (sample_point_env 0 0 0 0))"
    by (simp add: sample_point_env_def)
  with sample_task_index [of 0 0 "sample_point_env 0 0 0 0"] show ?thesis by blast
qed

text \<open>
  C2 as stated fails at the index -1 with one task: the index is outside \<open>[0, 1)\<close>, no
  error is raised, and the stored index is -1.
\<close>

theorem sample_task_negative_index:
  "k (controls (sample_point_env 0 0 0 0)) = 1
   \<and> snd (PointMassEnv_sample_task 0 (Some (- 1)) (sample_point_env 0 0 0 0)) = Inr (- 1)
   \<and> PointMassEnv_get_goal_index
        (fst (PointMassEnv_sample_task 0 (Some (- 1)) (sample_point_env 0 0 0 0))) = - 1"
  by (simp add: PointMassEnv_sample_task_def Controls_sample_task_def
        PointMassEnv_get_goal_index_def Let_def sample_point_env_def)

section \<open>Looking up a discrete action\<close>

text \<open>
  C3, as amended. In a discrete environment with a table of \<open>n\<close> entries, the lookup
  of \<^verbatim>\<open>step\<close> for an integer index \<open>i\<close> raises \<^verbatim>\<open>IndexError\<close>, and so does the step,
  when \<open>i \<ge> n\<close> or \<open>i < -n\<close>. For \<open>0 \<le> i < n\<close> the control is entry \<open>i\<close> of the
  table unchanged, and for \<open>-n \<le> i < 0\<close> it is entry \<open>n + i\<close>, counting from the
  end; in the peg environment the entry is followed by the current goal \<open>g\<close>. This
  holds for the point-mass and for the peg environment.
\<close>

theorem discrete_lookup:
  "(discrete env \<longrightarrow>
       (i < - int (length (a_dict env)) \<or> int (length (a_dict env)) \<le> i \<longrightarrow>
          PointMassEnv_step S env (Idx i) = Inl IndexError
        \<and> PointMassEnv_control env (Idx i) = Inl IndexError)
     \<and> (0 \<le> i \<and> i < int (length (a_dict env)) \<longrightarrow>
          py_getitem (a_dict env) i = Inr (a_dict env ! nat i)
        \<and> PointMassEnv_control env (Idx i)
            = Inr [fst (a_dict env ! nat i), snd (a_dict env ! nat i)])
     \<and> (- int (length (a_dict env)) \<le> i \<and> i < 0 \<longrightarrow>
          py_getitem (a_dict env) i = Inr (a_dict env ! nat (int (length (a_dict env)) + i))
        \<and> PointMassEnv_control env (Idx i)
            = Inr [fst (a_dict env ! nat (int (length (a_dict env)) + i)),
                   snd (a_dict env ! nat (int (length (a_dict env)) + i))]))
   \<and> (peg_discrete penv \<longrightarrow>
       (i < - int (length (peg_a_dict penv)) \<or> int (length (peg_a_dict penv)) \<le> i \<longrightarrow>
          Peg2DEnv_step P penv (Idx i) = Inl IndexError
        \<and> Peg2DEnv_control penv (Idx i) = Inl IndexError)
     \<and> (0 \<le> i \<and> i < int (length (peg_a_dict penv)) \<longrightarrow>
          py_getitem (peg_a_dict penv) i = Inr (peg_a_dict penv ! nat i)
        \<and> (goal penv = Some g \<longrightarrow>
             Peg2DEnv_control penv (Idx i)
               = Inr ([fst (peg_a_dict penv ! nat i), fst (snd (peg_a_dict penv ! nat i)),
                       snd (snd (peg_a_dict penv ! nat i))] @ g)))
     \<and> (- int (length (peg_a_dict penv)) \<le> i \<and> i < 0 \<longrightarrow>
          py_getitem (peg_a_dict penv) i
            = Inr (peg_a_dict penv ! nat (int (length (peg_a_dict penv)) + i))
        \<and> (goal penv = Some g \<longrightarrow>
             Peg2DEnv_control penv (Idx i)
               = Inr ([fst (peg_a_dict penv ! nat (int (length (peg_a_dict penv)) + i)),
                       fst (snd (peg_a_dict penv ! nat (int (length (peg_a_dict penv)) + i))),
                       snd (snd (peg_a_dict penv ! nat (int (length (peg_a_dict penv)) + i)))]
                      @ g))))"
proof -
  have pm: "discrete env \<longrightarrow>
       (i < - int (length (a_dict env)) \<or> int (length (a_dict env)) \<le> i \<longrightarrow>
          PointMassEnv_step S env (Idx i) = Inl IndexError
        \<and> PointMassEnv_control env (Idx i) = Inl IndexError)
     \<and> (0 \<le> i \<and> i < int (length (a_dict env)) \<longrightarrow>
          py_getitem (a_dict env) i = Inr (a_dict env ! nat i)
        \<and> PointMassEnv_control env (Idx i)
            = Inr [fst (a_dict env ! nat i), snd (a_dict env ! nat i)])
     \<and> (- int (length (a_dict env)) \<le> i \<and> i < 0 \<longrightarrow>
          py_getitem (a_dict env) i = Inr (a_dict env ! nat (int (length (a_dict env)) + i))
        \<and> PointMassEnv_control env (Idx i)
            = Inr [fst (a_dict env ! nat (int (length (a_dict env)) + i)),
                   snd (a_dict env ! nat (int (length (a_dict env)) + i))])"
  proof
    assume d: "discrete env"
    have out: "i < - int (length (a_dict env)) \<or> int (length (a_dict env)) \<le> i \<longrightarrow>
          PointMassEnv_step S env (Idx i) = Inl IndexError
        \<and> PointMassEnv_control env (Idx i) = Inl IndexError"
      using d by (auto simp add: PointMassEnv_step_def PointMassEnv_control_Idx py_getitem_cases Let_def)
    have mid: "0 \<le> i \<and> i < int (length (a_dict env)) \<longrightarrow>
          py_getitem (a_dict env) i = Inr (a_dict env ! nat i)
        \<and> PointMassEnv_control env (Idx i)
            = Inr [fst (a_dict env ! nat i), snd (a_dict env ! nat i)]"
      using d by (simp add: PointMassEnv_control_Idx py_getitem_cases)
    have neg: "- int (length (a_dict env)) \<le> i \<and> i < 0 \<longrightarrow>
          py_getitem (a_dict env) i = Inr (a_dict env ! nat (int (length (a_dict env)) + i))
        \<and> PointMassEnv_control env (Idx i)
            = Inr [fst (a_dict env ! nat (int (length (a_dict env)) + i)),
                   snd (a_dict env ! nat (int (length (a_dict env)) + i))]"
      using d by (simp add: PointMassEnv_control_Idx py_getitem_cases)
    show "(i < - int (length (a_dict env)) \<or> int (length (a_dict env)) \<le> i \<longrightarrow>
          PointMassEnv_step S env (Idx i) = Inl IndexError
        \<and> PointMassEnv_control env (Idx i) = Inl IndexError)
     \<and> (0 \<le> i \<and> i < int (length (a_dict env)) \<longrightarrow>
          py_getitem (a_dict env) i = Inr (a_dict env ! nat i)
        \<and> PointMassEnv_control env (Idx i)
            = Inr [fst (a_dict env ! nat i), snd (a_dict env ! nat i)])
     \<and> (- int (length (a_dict env)) \<le> i \<and> i < 0 \<longrightarrow>
          py_getitem (a_dict env) i = Inr (a_dict env ! nat (int (length (a_dict env)) + i))
        \<and> PointMassEnv_control env (Idx i)
            = Inr [fst (a_dict env ! nat (int (length (a_dict env)) + i)),
                   snd (a_dict env ! nat (int (length (a_dict env)) + i))])"
      apply (rule conjI, rule out)
      apply (rule conjI, rule mid)
      apply (rule neg)
      done
  qed
  have pg: "peg_discrete penv \<longrightarrow>
       (i < - int (length (peg_a_dict penv)) \<or> int (length (peg_a_dict penv)) \<le> i \<longrightarrow>
          Peg2DEnv_step P penv (Idx i) = Inl IndexError
        \<and> Peg2DEnv_control penv (Idx i) = Inl IndexError)
     \<and> (0 \<le> i \<and> i < int (length (peg_a_dict penv)) \<longrightarrow>
          py_getitem (peg_a_dict penv) i = Inr (peg_a_dict penv ! nat i)
        \<and> (goal penv = Some g \<longrightarrow>
             Peg2DEnv_control penv (Idx i)
               = Inr ([fst (peg_a_dict penv ! nat i), fst (snd (peg_a_dict penv ! nat i)),
                       snd (snd (peg_a_dict penv ! nat i))] @ g)))
     \<and> (- int (length (peg_a_dict penv)) \<le> i \<and> i < 0 \<longrightarrow>
          py_getitem (peg_a_dict penv) i
            = Inr (peg_a_dict penv ! nat (int (length (peg_a_dict penv)) + i))
        \<and> (goal penv = Some g \<longrightarrow>
             Peg2DEnv_control penv (Idx i)
               = Inr ([fst (peg_a_dict penv ! nat (int (length (peg_a_dict penv)) + i)),
                       fst (snd (peg_a_dict penv ! nat (int (length (peg_a_dict penv)) + i))),
                       snd (snd (peg_a_dict penv ! nat (int (length (peg_a_dict penv)) + i)))]
                      @ g)))"
  proof
    assume d: "peg_discrete penv"
    have out: "i < - int (length (peg_a_dict penv)) \<or> int (length (peg_a_dict penv)) \<le> i \<longrightarrow>
          Peg2DEnv_step P penv (Idx i) = Inl IndexError
        \<and> Peg2DEnv_control penv (Idx i) = Inl IndexError"
    proof
      assume "i < - int (length (peg_a_dict penv)) \<or> int (length (peg_a_dict penv)) \<le> i"
      then have "py_getitem (peg_a_dict penv) i = Inl IndexError"
        by (auto simp add: py_getitem_cases)
      from Peg2DEnv_control_IndexError [OF d this]
      show "Peg2DEnv_step P penv (Idx i) = Inl IndexError
        \<and> Peg2DEnv_control penv (Idx i) = Inl IndexError"
        by (simp add: Peg2DEnv_step_def)
    qed
    have mid: "0 \<le> i \<and> i < int (length (peg_a_dict penv)) \<longrightarrow>
          py_getitem (peg_a_dict penv) i = Inr (peg_a_dict penv ! nat i)
        \<and> (goal penv = Some g \<longrightarrow>
             Peg2DEnv_control penv (Idx i)
               = Inr ([fst (peg_a_dict penv ! nat i), fst (snd (peg_a_dict penv ! nat i)),
                       snd (snd (peg_a_dict penv ! nat i))] @ g))"
      using d by (simp add: Peg2DEnv_control_Idx py_getitem_cases)
    have neg: "- int (length (peg_a_dict penv)) \<le> i \<and> i < 0 \<longrightarrow>
          py_getitem (peg_a_dict penv) i
            = Inr (peg_a_dict penv ! nat (int (length (peg_a_dict penv)) + i))
        \<and> (goal penv = Some g \<longrightarrow>
             Peg2DEnv_control penv (Idx i)
               = Inr ([fst (peg_a_dict penv ! nat (int (length (peg_a_dict penv)) + i)),
                       fst (snd (peg_a_dict penv ! nat (int (length (peg_a_dict penv)) + i))),
                       snd (snd (peg_a_dict penv ! nat (int (length (peg_a_dict penv)) + i)))]
                      @ g))"
      using d by (simp add: Peg2DEnv_control_Idx py_getitem_cases)
    show "(i < - int (length (peg_a_dict penv)) \<or> int (length (peg_a_dict penv)) \<le> i \<longrightarrow>
          Peg2DEnv_step P penv (Idx i) = Inl IndexError
        \<and> Peg2DEnv_control penv (Idx i) = Inl IndexError)
     \<and> (0 \<le> i \<and> i < int (length (peg_a_dict penv)) \<longrightarrow>
          py_getitem (peg_a_dict penv) i = Inr (peg_a_dict penv ! nat i)
        \<and> (goal penv = Some g \<longrightarrow>
             Peg2DEnv_control penv (Idx i)
               = Inr ([fst (peg_a_dict penv ! nat i), fst (snd (peg_a_dict penv ! nat i)),
                       snd (snd (peg_a_dict penv ! nat i))] @ g)))
     \<and> (- int (length (peg_a_dict penv)) \<le> i \<and> i < 0 \<longrightarrow>
          py_getitem (peg_a_dict penv) i
            = Inr (peg_a_dict penv ! nat (int (length (peg_a_dict penv)) + i))
        \<and> (goal penv = Some g \<longrightarrow>
             Peg2DEnv_control penv (Idx i)
               = Inr ([fst (peg_a_dict penv ! nat (int (length (peg_a_dict penv)) + i)),
                       fst (snd (peg_a_dict penv ! nat (int (length (peg_a_dict penv)) + i))),
                       snd (snd (peg_a_dict penv ! nat (int (length (peg_a_dict penv)) + i)))]
                      @ g)))"
      apply (rule conjI, rule out)
      apply (rule conjI, rule mid)
      apply (rule neg)
      done
  qed
  show ?thesis
    apply (rule conjI, rule pm)
    apply (rule pg)
    done
qed

theorem discrete_lookup_witness:
  "PointMassEnv_step sample_simulator (sample_point_env 0 0 0 0) (Idx 27) = Inl IndexError
   \<and> Peg2DEnv_step sample_simulator (sample_peg_env False 0) (Idx 27) = Inl IndexError
   \<and> PointMassEnv_control (sample_point_env 0 0 0 0) (Idx 6) = Inr [0.5, 0]
   \<and> py_getitem (peg_a_dict (sample_peg_env False 0)) 6 = Inr (- 1, 1, - 1)
   \<and> Peg2DEnv_control (sample_peg_env False 0) (Idx 6) = Inr [- 1, 1, - 1, 0]
   \<and> py_getitem (a_dict (sample_point_env 0 0 0 0)) (- 8) = Inr (- 0.5, - 0.5)
   \<and> PointMassEnv_control (sample_point_env 0 0 0 0) (Idx (- 8)) = Inr [- 0.5, - 0.5]
   \<and> py_getitem (peg_a_dict (sample_peg_env False 0)) (- 8) = Inr (1, - 1, 0)
   \<and> Peg2DEnv_control (sample_peg_env False 0) (Idx (- 8)) = Inr [1, - 1, 0, 0]"
proof -
  let ?e = "sample_point_env 0 0 0 0"
  let ?p = "sample_peg_env False 0 :: (unit, unit) Peg2DEnv"
  have d: "discrete ?e" and pd: "peg_discrete ?p" and gl: "goal ?p = Some [0]"
    by (simp_all add: sample_point_env_def sample_peg_env_def)
  have l: "int (length (a_dict ?e)) = 8"
    by (simp add: sample_point_env_def PointMassEnv_a_dict_list)
  have pl: "int (length (peg_a_dict ?p)) = 27"
    by (simp add: sample_peg_env_def Peg2DEnv_a_dict_full)
  have out: "PointMassEnv_step sample_simulator ?e (Idx 27) = Inl IndexError
      \<and> Peg2DEnv_step sample_simulator ?p (Idx 27) = Inl IndexError"
    using discrete_lookup [where env = ?e and i = 27 and S = sample_simulator
        and penv = ?p and P = sample_simulator and g = "[0]"]
      d pd l pl by simp
  have mid: "PointMassEnv_control ?e (Idx 6)
       = Inr [fst (a_dict ?e ! nat 6), snd (a_dict ?e ! nat 6)]
      \<and> py_getitem (peg_a_dict ?p) 6 = Inr (peg_a_dict ?p ! nat 6)
      \<and> Peg2DEnv_control ?p (Idx 6)
          = Inr ([fst (peg_a_dict ?p ! nat 6), fst (snd (peg_a_dict ?p ! nat 6)),
                  snd (snd (peg_a_dict ?p ! nat 6))] @ [0])"
    using discrete_lookup [where env = ?e and i = 6 and S = sample_simulator
        and penv = ?p and P = sample_simulator and g = "[0]"]
      d pd gl l pl by simp
  have neg: "py_getitem (a_dict ?e) (- 8) = Inr (a_dict ?e ! nat (8 + - 8))
      \<and> PointMassEnv_control ?e (Idx (- 8))
          = Inr [fst (a_dict ?e ! nat (8 + - 8)), snd (a_dict ?e ! nat (8 + - 8))]
      \<and> py_getitem (peg_a_dict ?p) (- 8) = Inr (peg_a_dict ?p ! nat (27 + - 8))
      \<and> Peg2DEnv_control ?p (Idx (- 8))
          = Inr ([fst (peg_a_dict ?p ! nat (27 + - 8)), fst (snd (peg_a_dict ?p ! nat (27 + - 8))),
                  snd (snd (peg_a_dict ?p ! nat (27 + - 8)))] @ [0])"
    using discrete_lookup [where env = ?e and i = "- 8" and S = sample_simulator
        and penv = ?p and P = sample_simulator and g = "[0]"]
      d pd gl l pl by simp
  have v1: "a_dict ?e ! nat 6 = (0.5, 0)"
    and v2: "a_dict ?e ! nat (8 + - 8) = (- 0.5, - 0.5)"
    by (simp_all add: sample_point_env_def PointMassEnv_a_dict_list)
  have v3: "peg_a_dict ?p ! nat 6 = (- 1, 1, - 1)"
    and v4: "peg_a_dict ?p ! nat (27 + - 8) = (1, - 1, 0)"
    by (simp_all add: sample_peg_env_def Peg2DEnv_a_dict_full)
  from out mid neg v1 v2 v3 v4 show ?thesis by simp
qed

text \<open>
  C3 as stated fails at the index -1 on the point-mass table of 8 entries: the index is
  below 0, yet the step raises nothing and applies the last entry, \<open>(0.5, 0.5)\<close>.
\<close>

theorem discrete_lookup_negative_index:
  "length (a_dict (sample_point_env 0 0 0 0)) = 8
   \<and> PointMassEnv_control (sample_point_env 0 0 0 0) (Idx (- 1)) = Inr [0.5, 0.5]
   \<and> PointMassEnv_step sample_simulator (sample_point_env 0 0 0 0) (Idx (- 1))
     = Inr ((sample_point_env 0 0 0 0)
              \<lparr>sim := \<lparr>qpos = [0.05, 0.05, 0, 0], qvel = [0, 0, 0, 0], internals = ()\<rparr>\<rparr>,
            [0.05, 0.05], - 1, False, \<lparr>info_dist = 0, info_success = 1\<rparr>)"
  by (simp add: point_mass_eval)

section \<open>The peg-insertion step\<close>

text \<open>
  C5, as amended. Whenever \<^verbatim>\<open>Peg2DEnv.step\<close> returns, the reward is the negated Euclidean
  norm of the control vector handed to the simulator, and it is 0 exactly when every
  entry of that vector is 0. In the continuous configuration the control vector is the
  action itself; in the discrete configuration it is the table entry for the index
  followed by the current goal.
\<close>

theorem peg_reward:
  assumes "Peg2DEnv_step S env a = Inr (env', ob, reward, dn)"
  shows "\<exists>c. Peg2DEnv_control env a = Inr c
           \<and> reward = - linalg_norm c
           \<and> (reward = 0 \<longleftrightarrow> (\<forall>x\<in>set c. x = 0))
           \<and> (\<not> peg_discrete env \<longrightarrow> c = as_array a)
           \<and> (peg_discrete env \<longrightarrow>
                (\<exists>i x y z g. py_int a = Inr i \<and> py_getitem (peg_a_dict env) i = Inr (x, y, z)
                    \<and> goal env = Some g \<and> c = [x, y, z] @ g))"
proof -
  from Peg2DEnv_step_Inr [OF assms] obtain c where
    c: "Peg2DEnv_control env a = Inr c" and r: "reward = - linalg_norm c"
    by blast
  have z: "reward = 0 \<longleftrightarrow> (\<forall>x\<in>set c. x = 0)"
    using r by (simp add: linalg_norm_zero)
  have d: "peg_discrete env \<longrightarrow>
                (\<exists>i x y z g. py_int a = Inr i \<and> py_getitem (peg_a_dict env) i = Inr (x, y, z)
                    \<and> goal env = Some g \<and> c = [x, y, z] @ g)"
    using c Peg2DEnv_control_discrete [of env a c] by blast
  have n: "\<not> peg_discrete env \<longrightarrow> c = as_array a"
  proof
    assume "\<not> peg_discrete env"
    with c show "c = as_array a" by (simp add: Peg2DEnv_control_def)
  qed
  show ?thesis
    apply (rule exI [of _ c])
    using c r z d n apply (intro conjI)
        apply assumption+
    done
qed

theorem peg_reward_witness:
  "Peg2DEnv_step sample_simulator (sample_peg_env False 0) (Idx 13)
     = Inr ((sample_peg_env False 0)\<lparr>reach_counts := 1\<rparr>,
            \<lparr>ob_x = Some [0, 0, 0], ob_img = None, ob_goal = Some [0], ob_goal_img = None,
             ob_a = None\<rparr>,
            0, False)
   \<and> (\<exists>c. Peg2DEnv_control (sample_peg_env False 0) (Idx 13) = Inr c
          \<and> (0::real) = - linalg_norm c \<and> (\<forall>x\<in>set c. x = 0))"
proof -
  have run: "Peg2DEnv_step sample_simulator (sample_peg_env False 0) (Idx 13)
     = Inr ((sample_peg_env False 0)\<lparr>reach_counts := 1\<rparr>,
            \<lparr>ob_x = Some [0, 0, 0], ob_img = None, ob_goal = Some [0], ob_goal_img = None,
             ob_a = None\<rparr>,
            0, False)"
    by (simp add: peg_eval)
  from peg_reward [OF run] run show ?thesis by blast
qed

text \<open>
  C5 as stated fails in the discrete configuration with the goal 0.01 at the index 13:
  the table entry is the all-zero triple, whose norm is 0, and the reward is -0.01.
\<close>

theorem peg_reward_includes_goal:
  "py_getitem (peg_a_dict (sample_peg_env False 0.01)) 13 = Inr (0, 0, 0)
   \<and> - linalg_norm [0, 0, 0] = 0
   \<and> Peg2DEnv_step sample_simulator (sample_peg_env False 0.01) (Idx 13)
     = Inr ((sample_peg_env False 0.01)
              \<lparr>peg_sim := \<lparr>qpos = [0, 0, 0, 0.011], qvel = [0, 0, 0, 0], internals = ()\<rparr>\<rparr>,
            \<lparr>ob_x = Some [0, 0, 0], ob_img = None, ob_goal = Some [0.011], ob_goal_img = None,
             ob_a = None\<rparr>,
            - 0.01, False)"
  by (simp add: peg_eval)

text \<open>
  C6, as amended. In every step that returns, the counter is incremented on a reward of
  exactly 0 and cleared on any other reward; \<^verbatim>\<open>done\<close> is true exactly when \<^verbatim>\<open>done_on_goal\<close>
  is set and that value exceeds 1, and the counter is then stored as 0, and as the
  incremented or cleared value otherwise. Over a run of steps that starts from the
  result of \<^verbatim>\<open>reset_model\<close>: without \<^verbatim>\<open>done_on_goal\<close> the counter is the number of steps at
  the end of the run whose reward was exactly 0 and \<^verbatim>\<open>done\<close> is never true; with
  \<^verbatim>\<open>done_on_goal\<close> the counter is that number modulo 2, and \<^verbatim>\<open>done\<close> is true exactly at
  every second zero-reward step in a row.
\<close>

theorem reach_counter:
  "(Peg2DEnv_step T e a = Inr (e', ob, r, d) \<longrightarrow>
       (d \<longleftrightarrow> done_on_goal e \<and> (if r = 0 then reach_counts e + 1 else 0) > 1)
     \<and> reach_counts e' = (if d then 0 else if r = 0 then reach_counts e + 1 else 0))
   \<and> (Peg2DEnv_reset_model S e0 x_arg goal_arg = Some (Inr (env, ob0))
        \<and> Peg2DEnv_steps S env as = Inr (env', tr) \<longrightarrow>
       reach_counts env' = (if done_on_goal env then int (trailing_zero_rewards tr mod 2)
                            else int (trailing_zero_rewards tr))
     \<and> (\<forall>n<length tr. snd (tr ! n) \<longleftrightarrow>
           done_on_goal env \<and> 0 < trailing_zero_rewards (take (Suc n) tr)
             \<and> even (trailing_zero_rewards (take (Suc n) tr))))"
proof -
  have one: "Peg2DEnv_step T e a = Inr (e', ob, r, d) \<longrightarrow>
       (d \<longleftrightarrow> done_on_goal e \<and> (if r = 0 then reach_counts e + 1 else 0) > 1)
     \<and> reach_counts e' = (if d then 0 else if r = 0 then reach_counts e + 1 else 0)"
  proof
    assume "Peg2DEnv_step T e a = Inr (e', ob, r, d)"
    from Peg2DEnv_step_Inr [OF this]
    have "(reach_counts e', d) = reach_update (done_on_goal e) (reach_counts e) r"
      by blast
    then show "(d \<longleftrightarrow> done_on_goal e \<and> (if r = 0 then reach_counts e + 1 else 0) > 1)
       \<and> reach_counts e' = (if d then 0 else if r = 0 then reach_counts e + 1 else 0)"
      by (auto simp add: reach_update_eq split: if_splits)
  qed
  have many: "Peg2DEnv_reset_model S e0 x_arg goal_arg = Some (Inr (env, ob0))
        \<and> Peg2DEnv_steps S env as = Inr (env', tr) \<longrightarrow>
       reach_counts env' = (if done_on_goal env then int (trailing_zero_rewards tr mod 2)
                            else int (trailing_zero_rewards tr))
     \<and> (\<forall>n<length tr. snd (tr ! n) \<longleftrightarrow>
           done_on_goal env \<and> 0 < trailing_zero_rewards (take (Suc n) tr)
             \<and> even (trailing_zero_rewards (take (Suc n) tr)))"
  proof
    assume h: "Peg2DEnv_reset_model S e0 x_arg goal_arg = Some (Inr (env, ob0))
        \<and> Peg2DEnv_steps S env as = Inr (env', tr)"
    then have "reach_counts env = 0"
      using Peg2DEnv_reset_model_fields by blast
    from reach_counts_run [OF this] h
    show "reach_counts env' = (if done_on_goal env then int (trailing_zero_rewards tr mod 2)
                            else int (trailing_zero_rewards tr))
     \<and> (\<forall>n<length tr. snd (tr ! n) \<longleftrightarrow>
           done_on_goal env \<and> 0 < trailing_zero_rewards (take (Suc n) tr)
             \<and> even (trailing_zero_rewards (take (Suc n) tr)))"
      by blast
  qed
  from one many show ?thesis by blast
qed

theorem reach_counter_witness:
  "Peg2DEnv_reset_model sample_simulator (sample_peg_env True 0) (Some [0, 0, 0]) (Some [0])
     = Some (Inr ((sample_peg_env True 0)\<lparr>goal_img := Some ()\<rparr>,
          \<lparr>ob_x = Some [0, 0, 0], ob_img = None, ob_goal = Some [0], ob_goal_img = None,
           ob_a = None\<rparr>))
   \<and> Peg2DEnv_steps sample_simulator ((sample_peg_env True 0)\<lparr>goal_img := Some ()\<rparr>)
        [Idx 13, Idx 13, Idx 13]
     = Inr ((sample_peg_env True 0)\<lparr>goal_img := Some (), reach_counts := 1\<rparr>,
            [(0, False), (0, True), (0, False)])
   \<and> trailing_zero_rewards [(0, False), (0, True), (0, False)] = 3
   \<and> trailing_zero_rewards (take (Suc 1) [(0, False), (0, True), (0, False)]) = 2
   \<and> reach_counts ((sample_peg_env True 0)\<lparr>goal_img := Some (), reach_counts := 1\<rparr>)
       = int (trailing_zero_rewards [(0, False), (0, True), (0, False)] mod 2)
   \<and> snd ([(0::real, False), (0, True), (0, False)] ! 1)"
proof -
  let ?E0 = "(sample_peg_env True 0)\<lparr>goal_img := Some ()\<rparr>"
  let ?E3 = "(sample_peg_env True 0)\<lparr>goal_img := Some (), reach_counts := 1\<rparr>"
  let ?TR = "[(0::real, False), (0, True), (0, False)]"
  have rst: "Peg2DEnv_reset_model sample_simulator (sample_peg_env True 0) (Some [0, 0, 0]) (Some [0])
     = Some (Inr (?E0,
          \<lparr>ob_x = Some [0, 0, 0], ob_img = None, ob_goal = Some [0], ob_goal_img = None,
           ob_a = None\<rparr>))"
    by (simp add: Peg2DEnv_reset_model_def reset_with_def rng_rand_def rng_skip_def
          np_assign_all_def Peg2DEnv_get_obs_def sample_peg_env_def sample_simulator_def Let_def)
  have stp: "Peg2DEnv_steps sample_simulator ?E0 [Idx 13, Idx 13, Idx 13] = Inr (?E3, ?TR)"
    by (simp add: peg_eval)
  have og: "done_on_goal ?E0"
    by (simp add: sample_peg_env_def)
  have t3: "trailing_zero_rewards ?TR = 3"
    and t2: "trailing_zero_rewards (take (Suc 1) ?TR) = 2"
    by (simp_all add: trailing_zero_rewards_def)
  from reach_counter [where S = sample_simulator and ?e0.0 = "sample_peg_env True 0"
      and x_arg = "Some [0, 0, 0]" and goal_arg = "Some [0]" and env = ?E0 and as = "[Idx 13, Idx 13, Idx 13]"
      and env' = ?E3 and tr = ?TR] rst stp
  have both: "reach_counts ?E3 = (if done_on_goal ?E0 then int (trailing_zero_rewards ?TR mod 2)
                            else int (trailing_zero_rewards ?TR))
     \<and> (\<forall>n<length ?TR. snd (?TR ! n) \<longleftrightarrow>
           done_on_goal ?E0 \<and> 0 < trailing_zero_rewards (take (Suc n) ?TR)
             \<and> even (trailing_zero_rewards (take (Suc n) ?TR)))"
    by blast
  from both og have cnt: "reach_counts ?E3 = int (trailing_zero_rewards ?TR mod 2)"
    by presburger
  have "(1::nat) < length ?TR" by simp
  with both have "snd (?TR ! 1) \<longleftrightarrow>
           done_on_goal ?E0 \<and> 0 < trailing_zero_rewards (take (Suc 1) ?TR)
             \<and> even (trailing_zero_rewards (take (Suc 1) ?TR))"
    by blast
  with og t2 have dn: "snd (?TR ! 1)" by simp
  from rst stp t3 t2 cnt dn show ?thesis by blast
qed

text \<open>
  C6 as stated fails with \<^verbatim>\<open>done_on_goal\<close> after three zero-reward steps from a reset: the
  three steps before the end all had reward 0, and the counter is 1, the second step
  having returned \<^verbatim>\<open>done\<close> and cleared it.
\<close>

theorem reach_counter_three_zero_steps:
  "Peg2DEnv_reset_model sample_simulator (sample_peg_env True 0) (Some [0, 0, 0]) (Some [0])
     = Some (Inr ((sample_peg_env True 0)\<lparr>goal_img := Some ()\<rparr>,
          \<lparr>ob_x = Some [0, 0, 0], ob_img = None, ob_goal = Some [0], ob_goal_img = None,
           ob_a = None\<rparr>))
   \<and> Peg2DEnv_steps sample_simulator ((sample_peg_env True 0)\<lparr>goal_img := Some ()\<rparr>)
        [Idx 13, Idx 13, Idx 13]
     = Inr ((sample_peg_env True 0)\<lparr>goal_img := Some (), reach_counts := 1\<rparr>,
            [(0, False), (0, True), (0, False)])
   \<and> reach_counts ((sample_peg_env True 0)\<lparr>goal_img := Some (), reach_counts := 1\<rparr>) = 1
   \<and> trailing_zero_rewards [(0, False), (0, True), (0, False)] = 3"
proof -
  have rst: "Peg2DEnv_reset_model sample_simulator (sample_peg_env True 0) (Some [0, 0, 0]) (Some [0])
     = Some (Inr ((sample_peg_env True 0)\<lparr>goal_img := Some ()\<rparr>,
          \<lparr>ob_x = Some [0, 0, 0], ob_img = None, ob_goal = Some [0], ob_goal_img = None,
           ob_a = None\<rparr>))"
    by (simp add: Peg2DEnv_reset_model_def reset_with_def rng_rand_def rng_skip_def
          np_assign_all_def Peg2DEnv_get_obs_def sample_peg_env_def sample_simulator_def Let_def)
  have stp: "Peg2DEnv_steps sample_simulator ((sample_peg_env True 0)\<lparr>goal_img := Some ()\<rparr>)
        [Idx 13, Idx 13, Idx 13]
     = Inr ((sample_peg_env True 0)\<lparr>goal_img := Some (), reach_counts := 1\<rparr>,
            [(0, False), (0, True), (0, False)])"
    by (simp add: peg_eval)
  have cnt: "reach_counts ((sample_peg_env True 0)\<lparr>goal_img := Some (), reach_counts := 1\<rparr>) = 1"
    by simp
  have tz: "trailing_zero_rewards [(0::real, False), (0, True), (0, False)] = 3"
    by (simp add: trailing_zero_rewards_def)
  show ?thesis
    apply (rule conjI, rule rst)
    apply (rule conjI, rule stp)
    apply (rule conjI, rule cnt)
    apply (rule tz)
    done
qed

section \<open>Rejection sampling in the peg environment\<close>

text \<open>
  C7. The candidates of \<^verbatim>\<open>Peg2DEnv._get_goal\<close> are the values \<open>low + (high - low) u\<close> over
  the consecutive draws \<open>u\<close>, four to a batch. The sampler returns the goal \<open>g\<close> and
  leaves the generator in the state \<open>s'\<close> exactly when, for some batch \<open>n\<close> and some
  position \<open>i\<close> in it, no candidate before candidate \<open>4 n + i\<close> lies strictly between
  -0.26 and 0.26, that candidate does, \<open>g\<close> is the one-element array holding it, and
  the whole of the batches \<open>0\<close> to \<open>n\<close>, \<open>4 (n + 1)\<close> draws, has been consumed. In
  terms of the inner loop: every candidate of the first \<open>n\<close> batches is rejected and
  \<open>g\<close> is the first accepted candidate of batch \<open>n\<close>. Every goal returned is a
  one-element array whose entry lies strictly between -0.26 and 0.26, and the sampler
  raises nothing.
\<close>

theorem peg_goal_sampling:
  "(Peg2DEnv_get_goal low high s = Some (Inr (g, s')) \<longleftrightarrow>
      (\<exists>n i. i < 4
         \<and> (\<forall>j < 4 * n + i. \<not> (- 0.26 < low + (high - low) * s j
                                  \<and> low + (high - low) * s j < 0.26))
         \<and> (- 0.26 < low + (high - low) * s (4 * n + i)
              \<and> low + (high - low) * s (4 * n + i) < 0.26)
         \<and> g = [low + (high - low) * s (4 * n + i)]
         \<and> s' = rng_skip (4 * Suc n) s))
   \<and> (Peg2DEnv_get_goal low high s = Some (Inr (g, s')) \<longleftrightarrow>
      (\<exists>n. (\<forall>m<n. first_accepted good_goal
                      (fst (goal_batch low high (rng_skip (4 * m) s))) = Inr None)
         \<and> first_accepted good_goal (fst (goal_batch low high (rng_skip (4 * n) s)))
             = Inr (Some g)
         \<and> s' = rng_skip (4 * Suc n) s))
   \<and> (Peg2DEnv_get_goal low high s = Some (Inr (g, s')) \<longrightarrow>
         (\<exists>v. g = [v] \<and> - 0.26 < v \<and> v < 0.26))
   \<and> fst (goal_batch low high s)
       = [[low + (high - low) * s 0], [low + (high - low) * s 1],
          [low + (high - low) * s 2], [low + (high - low) * s 3]]
   \<and> Peg2DEnv_get_goal low high s \<noteq> Some (Inl e)"
proof -
  have draws: "Peg2DEnv_get_goal low high s = Some (Inr (g, s')) \<longleftrightarrow>
      (\<exists>n i. i < 4
         \<and> (\<forall>j < 4 * n + i. \<not> (- 0.26 < low + (high - low) * s j
                                  \<and> low + (high - low) * s j < 0.26))
         \<and> (- 0.26 < low + (high - low) * s (4 * n + i)
              \<and> low + (high - low) * s (4 * n + i) < 0.26)
         \<and> g = [low + (high - low) * s (4 * n + i)]
         \<and> s' = rng_skip (4 * Suc n) s)"
    using get_goal_by_draws [of low high s g s']
    by (simp only: good_goal_True_iff good_goal_False_iff)
  have char: "Peg2DEnv_get_goal low high s = Some (Inr (g, s')) \<longleftrightarrow>
      (\<exists>n. (\<forall>m<n. first_accepted good_goal
                      (fst (goal_batch low high (rng_skip (4 * m) s))) = Inr None)
         \<and> first_accepted good_goal (fst (goal_batch low high (rng_skip (4 * n) s)))
             = Inr (Some g)
         \<and> s' = rng_skip (4 * Suc n) s)"
    using get_goal_only [of low high s "Inr (g, s')"] get_goal_returns [of _ low high s g]
    by blast
  have rng: "Peg2DEnv_get_goal low high s = Some (Inr (g, s')) \<longrightarrow>
         (\<exists>v. g = [v] \<and> - 0.26 < v \<and> v < 0.26)"
  proof
    assume "Peg2DEnv_get_goal low high s = Some (Inr (g, s'))"
    with draws obtain n i where
      "- 0.26 < low + (high - low) * s (4 * n + i) \<and> low + (high - low) * s (4 * n + i) < 0.26"
      and "g = [low + (high - low) * s (4 * n + i)]"
      by blast
    then show "\<exists>v. g = [v] \<and> - 0.26 < v \<and> v < 0.26"
      by (intro exI [of _ "low + (high - low) * s (4 * n + i)"]) simp
  qed
  have noerr: "Peg2DEnv_get_goal low high s \<noteq> Some (Inl e)"
    using get_goal_only [of low high s "Inl e"] by blast
  have batch: "fst (goal_batch low high s)
       = [[low + (high - low) * s 0], [low + (high - low) * s 1],
          [low + (high - low) * s 2], [low + (high - low) * s 3]]"
    by (simp add: goal_batch_eq)
  show ?thesis
    apply (intro conjI)
        apply (rule draws)
       apply (rule char)
      apply (rule rng)
     apply (rule batch)
    apply (rule noerr)
    done
qed

theorem peg_goal_sampling_witness:
  "Peg2DEnv_get_goal (- 1) 1 (\<lambda>i. if i < 6 then 9 / 10 else 1 / 2)
     = Some (Inr ([0], rng_skip (4 * Suc 1) (\<lambda>i. if i < 6 then 9 / 10 else 1 / 2)))
   \<and> (\<exists>v. [0::real] = [v] \<and> - 0.26 < v \<and> v < 0.26)"
proof -
  let ?s = "\<lambda>i::nat. if i < 6 then 9 / 10 else (1 / 2 :: real)"
  have two: "(2::nat) < 4" by simp
  have rej: "\<forall>j < 4 * 1 + 2. \<not> (- 0.26 < - 1 + (1 - - 1) * ?s j \<and> - 1 + (1 - - 1) * ?s j < 0.26)"
  proof (intro allI impI)
    fix j :: nat assume "j < 4 * 1 + 2"
    then have "?s j = 9 / 10" by simp
    then show "\<not> (- 0.26 < - 1 + (1 - - 1) * ?s j \<and> - 1 + (1 - - 1) * ?s j < 0.26)"
      by simp
  qed
  have acc: "- 0.26 < - 1 + (1 - - 1) * ?s (4 * 1 + 2) \<and> - 1 + (1 - - 1) * ?s (4 * 1 + 2) < 0.26"
    by simp
  have g: "[0::real] = [- 1 + (1 - - 1) * ?s (4 * 1 + 2)]"
    by simp
  note t = peg_goal_sampling [of "- 1" 1 ?s "[0]" "rng_skip (4 * Suc 1) ?s"]
  have "\<exists>n i. i < 4
         \<and> (\<forall>j < 4 * n + i. \<not> (- 0.26 < - 1 + (1 - - 1) * ?s j
                                  \<and> - 1 + (1 - - 1) * ?s j < 0.26))
         \<and> (- 0.26 < - 1 + (1 - - 1) * ?s (4 * n + i)
              \<and> - 1 + (1 - - 1) * ?s (4 * n + i) < 0.26)
         \<and> [0] = [- 1 + (1 - - 1) * ?s (4 * n + i)]
         \<and> rng_skip (4 * Suc 1) ?s = rng_skip (4 * Suc n) ?s"
    apply (rule exI [of _ 1])
    apply (rule exI [of _ 2])
    apply (rule conjI, rule two)
    apply (rule conjI, rule rej)
    apply (rule conjI, rule acc)
    apply (rule conjI, rule g)
    apply (rule refl)
    done
  then have ret: "Peg2DEnv_get_goal (- 1) 1 ?s
     = Some (Inr ([0], rng_skip (4 * Suc 1) ?s))"
    by (rule t [THEN conjunct1, THEN iffD2])
  from t [THEN conjunct2, THEN conjunct2, THEN conjunct1, THEN mp, OF ret]
  have "\<exists>v. [0::real] = [v] \<and> - 0.26 < v \<and> v < 0.26" .
  with ret show ?thesis by blast
qed

text \<open>
  C8. \<^verbatim>\<open>Peg2DEnv._get_state\<close> returns the state \<open>st\<close> and leaves the generator in the state
  \<open>s'\<close> exactly when, for some \<open>n\<close>, every candidate of the first \<open>n\<close> batches is
  rejected, \<open>st\<close> is the first accepted candidate of batch \<open>n\<close>, and \<open>20 (n + 1)\<close>
  draws have been consumed. Each batch is four candidates \<open>[x, -x - sgn x * sp, sgn x * sp + ex]\<close>
  with \<open>x = -1.5 + 3 u\<close>, \<open>sp = (\<pi>/2) u'\<close> and \<open>ex = (\<pi>/4) u''\<close> over draws
  \<open>u\<close>, \<open>u'\<close>, \<open>u''\<close>, which for draws in the unit interval lie in \<open>[-1.5, 1.5)\<close>,
  \<open>[0, \<pi>/2)\<close> and \<open>[0, \<pi>/4)\<close>. Every state returned has that shape with its first
  joint strictly between \<open>-\<pi>/2\<close> and \<open>\<pi>/2\<close>, and the sampler raises nothing.
\<close>

theorem peg_state_sampling:
  "(Peg2DEnv_get_state s = Some (Inr (st, s')) \<longleftrightarrow>
      (\<exists>n. (\<forall>m<n. first_accepted good_state
                      (fst (state_batch (rng_skip (20 * m) s))) = Inr None)
         \<and> first_accepted good_state (fst (state_batch (rng_skip (20 * n) s))) = Inr (Some st)
         \<and> s' = rng_skip (20 * Suc n) s))
   \<and> fst (state_batch s)
       = map (\<lambda>i. [- 1.5 + 3 * s (3 * i),
                   - (- 1.5 + 3 * s (3 * i))
                     - sgn (- 1.5 + 3 * s (3 * i)) * (pi / 2 * s (12 + i)),
                   sgn (- 1.5 + 3 * s (3 * i)) * (pi / 2 * s (12 + i)) + pi / 4 * s (16 + i)])
             [0, 1, 2, 3]
   \<and> (unit_draws s \<longrightarrow>
         (\<forall>i. - 1.5 \<le> - 1.5 + 3 * s i \<and> - 1.5 + 3 * s i < 1.5
             \<and> 0 \<le> pi / 2 * s i \<and> pi / 2 * s i < pi / 2
             \<and> 0 \<le> pi / 4 * s i \<and> pi / 4 * s i < pi / 4))
   \<and> (Peg2DEnv_get_state s = Some (Inr (st, s')) \<longrightarrow>
         (\<exists>x sp ex. st = [x, - x - sgn x * sp, sgn x * sp + ex]
             \<and> - pi / 2 < x \<and> x < pi / 2))
   \<and> Peg2DEnv_get_state s \<noteq> Some (Inl e)"
proof -
  have char: "Peg2DEnv_get_state s = Some (Inr (st, s')) \<longleftrightarrow>
      (\<exists>n. (\<forall>m<n. first_accepted good_state
                      (fst (state_batch (rng_skip (20 * m) s))) = Inr None)
         \<and> first_accepted good_state (fst (state_batch (rng_skip (20 * n) s))) = Inr (Some st)
         \<and> s' = rng_skip (20 * Suc n) s)"
    using get_state_only [of s "Inr (st, s')"] get_state_returns [of _ s st]
    by blast
  have draws: "unit_draws s \<longrightarrow>
         (\<forall>i. - 1.5 \<le> - 1.5 + 3 * s i \<and> - 1.5 + 3 * s i < 1.5
             \<and> 0 \<le> pi / 2 * s i \<and> pi / 2 * s i < pi / 2
             \<and> 0 \<le> pi / 4 * s i \<and> pi / 4 * s i < pi / 4)"
    by (simp add: unit_draws_def)
  have rng: "Peg2DEnv_get_state s = Some (Inr (st, s')) \<longrightarrow>
         (\<exists>x sp ex. st = [x, - x - sgn x * sp, sgn x * sp + ex]
             \<and> - pi / 2 < x \<and> x < pi / 2)"
  proof
    assume "Peg2DEnv_get_state s = Some (Inr (st, s'))"
    with char obtain n where
      "first_accepted good_state (fst (state_batch (rng_skip (20 * n) s))) = Inr (Some st)"
      by blast
    from first_accepted_Some [OF this]
    have mem: "st \<in> set (fst (state_batch (rng_skip (20 * n) s)))"
      and ok: "good_state st = Inr True"
      by blast+
    from state_batch_shape [OF mem] obtain x sp ex where
      st: "st = [x, - x - sgn x * sp, sgn x * sp + ex]"
      by blast
    with ok have "- pi / 2 < x \<and> x < pi / 2"
      by (simp add: good_state_triple)
    with st show "\<exists>x sp ex. st = [x, - x - sgn x * sp, sgn x * sp + ex]
             \<and> - pi / 2 < x \<and> x < pi / 2"
      by blast
  qed
  have noerr: "Peg2DEnv_get_state s \<noteq> Some (Inl e)"
    using get_state_only [of s "Inl e"] by blast
  have batch: "fst (state_batch s)
       = map (\<lambda>i. [- 1.5 + 3 * s (3 * i),
                   - (- 1.5 + 3 * s (3 * i))
                     - sgn (- 1.5 + 3 * s (3 * i)) * (pi / 2 * s (12 + i)),
                   sgn (- 1.5 + 3 * s (3 * i)) * (pi / 2 * s (12 + i)) + pi / 4 * s (16 + i)])
             [0, 1, 2, 3]"
    by (simp only: state_batch_eq fst_conv)
  from char batch draws rng noerr show ?thesis by blast
qed

theorem peg_state_sampling_witness:
  "Peg2DEnv_get_state (\<lambda>i. 1 / 2) = Some (Inr ([0, 0, pi / 8], rng_skip (20 * Suc 0) (\<lambda>i. 1 / 2)))
   \<and> (\<exists>x sp ex. [0, 0, pi / 8] = [x, - x - sgn x * sp, sgn x * sp + ex]
          \<and> - pi / 2 < x \<and> x < pi / 2)
   \<and> pi / 2 * (1 / 2) < pi / 2"
proof -
  let ?s = "\<lambda>i::nat. (1 / 2 :: real)"
  have u: "unit_draws ?s"
    by (simp add: unit_draws_def)
  have rej: "\<forall>m<0. first_accepted good_state
                      (fst (state_batch (rng_skip (20 * m) ?s))) = Inr None"
    by simp
  have acc: "first_accepted good_state (fst (state_batch (rng_skip (20 * 0) ?s)))
               = Inr (Some [0, 0, pi / 8])"
    by (simp add: state_batch_eq good_state_triple rng_skip_def)
  note t = peg_state_sampling [of ?s "[0, 0, pi / 8]" "rng_skip (20 * Suc 0) ?s"]
  from t rej acc have ret: "Peg2DEnv_get_state ?s
      = Some (Inr ([0, 0, pi / 8], rng_skip (20 * Suc 0) ?s))"
    by blast
  with t have shape: "\<exists>x sp ex. [0, 0, pi / 8] = [x, - x - sgn x * sp, sgn x * sp + ex]
          \<and> - pi / 2 < x \<and> x < pi / 2"
    by blast
  from t u have "pi / 2 * ?s 0 < pi / 2"
    by blast
  with ret shape show ?thesis by blast
qed

text \<open>
  C10. For every stream of draws in the unit interval, \<^verbatim>\<open>Peg2DEnv._get_state\<close> returns
  after one batch, twenty draws, with the first candidate of that batch: every candidate
  of the batch satisfies \<^verbatim>\<open>good_state\<close>, since its first joint is at least -1.5 and below
  1.5, and \<open>1.5 < \<pi>/2\<close>.
\<close>

theorem peg_state_first_candidate:
  assumes "unit_draws s"
  shows "Peg2DEnv_get_state s = Some (Inr (fst (state_batch s) ! 0, rng_skip 20 s))
       \<and> (\<forall>c\<in>set (fst (state_batch s)). good_state c = Inr True)
       \<and> fst (state_batch s) ! 0
           = [- 1.5 + 3 * s 0,
              - (- 1.5 + 3 * s 0) - sgn (- 1.5 + 3 * s 0) * (pi / 2 * s 12),
              sgn (- 1.5 + 3 * s 0) * (pi / 2 * s 12) + pi / 4 * s 16]"
proof -
  have "\<forall>m<0. first_accepted good_state (fst (state_batch (rng_skip (20 * m) s))) = Inr None"
    by simp
  moreover have "first_accepted good_state (fst (state_batch (rng_skip (20 * 0) s)))
      = Inr (Some (fst (state_batch s) ! 0))"
    using state_batch_first_accepted [OF assms] by (simp add: rng_skip_zero)
  ultimately have "Peg2DEnv_get_state s
      = Some (Inr (fst (state_batch s) ! 0, rng_skip (20 * Suc 0) s))"
    by (rule get_state_returns)
  then have ret: "Peg2DEnv_get_state s = Some (Inr (fst (state_batch s) ! 0, rng_skip 20 s))"
    by simp
  have first: "fst (state_batch s) ! 0
           = [- 1.5 + 3 * s 0,
              - (- 1.5 + 3 * s 0) - sgn (- 1.5 + 3 * s 0) * (pi / 2 * s 12),
              sgn (- 1.5 + 3 * s 0) * (pi / 2 * s 12) + pi / 4 * s 16]"
    by (simp add: state_batch_eq)
  from ret state_batch_all_good [OF assms] first show ?thesis by blast
qed

theorem peg_state_first_candidate_witness:
  "unit_draws (\<lambda>i. 1 / 4)
   \<and> Peg2DEnv_get_state (\<lambda>i. 1 / 4)
       = Some (Inr ([- 3 / 4, 3 / 4 + pi / 8, - (pi / 8) + pi / 16], rng_skip 20 (\<lambda>i. 1 / 4)))"
proof -
  let ?s = "\<lambda>i::nat. (1 / 4 :: real)"
  have u: "unit_draws ?s"
    by (simp add: unit_draws_def)
  from peg_state_first_candidate [OF u]
  have "Peg2DEnv_get_state ?s = Some (Inr (fst (state_batch ?s) ! 0, rng_skip 20 ?s))"
    by blast
  moreover have "fst (state_batch ?s) ! 0 = [- 3 / 4, 3 / 4 + pi / 8, - (pi / 8) + pi / 16]"
    by (simp add: state_batch_eq)
  ultimately show ?thesis using u by simp
qed

end
